theory Spec2Isabelle
  imports Complex_Main
begin

section \<open>Schema model (src/src/features/schema/types/schema.types.ts, src/src/constants/schema.ts)\<close>

text \<open>
  Strings are HOL strings (lists of 8-bit characters); the development covers ASCII text.
  A JavaScript \<open>number\<close> is a finite value or one of the three non-finite doubles; a
  \<open>Date\<close> is a time value in milliseconds or the invalid date. An optional property
  (\<open>field?: T\<close>) is an \<open>option\<close>, \<open>None\<close> standing for \<open>undefined\<close>.
  Record fields carry a prefix where the interfaces of the source share a property name
  (\<open>id\<close>, \<open>name\<close>, \<open>description\<close>, \<open>type\<close>, \<open>onDelete\<close>, \<open>onUpdate\<close>).
\<close>

datatype number = Finite rat | NaN | PosInfinity | NegInfinity

datatype Date = Date int | Invalid_Date

datatype SQLDialect = postgresql | mysql | sqlite | sqlserver

record ForeignKey =
  fk_tableId :: string
  fk_columnId :: string
  fk_onDelete :: "string option"
  fk_onUpdate :: "string option"

record Column =
  col_id :: string
  col_name :: string
  col_type :: string
  nullable :: bool
  primaryKey :: bool
  unique :: bool
  defaultValue :: "string option"
  foreignKey :: "ForeignKey option"
  col_description :: "string option"

record Table =
  tbl_id :: string
  tbl_name :: string
  position :: "number \<times> number"
  columns :: "Column list"
  tbl_description :: "string option"
  color :: "string option"

record Relationship =
  rel_id :: string
  sourceTableId :: string
  sourceColumnId :: string
  targetTableId :: string
  targetColumnId :: string
  rel_type :: string
  rel_name :: "string option"
  rel_onDelete :: "string option"
  rel_onUpdate :: "string option"

record Schema =
  sch_id :: string
  sch_name :: string
  sch_description :: "string option"
  tables :: "Table list"
  relationships :: "Relationship list"
  createdAt :: Date
  updatedAt :: Date
  version :: number

definition COLUMN_TYPES :: "string list" where
  "COLUMN_TYPES =
    [''string'', ''text'', ''integer'', ''bigint'', ''float'', ''decimal'', ''boolean'',
     ''date'', ''datetime'', ''timestamp'', ''time'', ''json'', ''jsonb'', ''uuid'',
     ''binary'', ''enum'', ''array'']"



section \<open>Reading a property of an object literal\<close>

text \<open>
  The type maps of the exporters are object literals indexed with a string computed at
  run time (\<open>typeMap[dialect][type]\<close>). Such a read finds the literal's own properties
  and, failing that, the members every object inherits from \<open>Object.prototype\<close>
  (ECMAScript, Object.prototype and Annex B); otherwise it yields \<open>undefined\<close>. The
  inherited members are functions, except \<open>__proto__\<close>, which reads as the prototype
  object; all of them are truthy.
\<close>

datatype jsval = JSUndefined | JSString string | JSInherited string

definition Object_prototype_keys :: "string list" where
  "Object_prototype_keys =
    [''constructor'', ''__defineGetter__'', ''__defineSetter__'', ''hasOwnProperty'',
     ''__lookupGetter__'', ''__lookupSetter__'', ''isPrototypeOf'', ''propertyIsEnumerable'',
     ''toString'', ''valueOf'', ''__proto__'', ''toLocaleString'']"

definition getProperty :: "(string \<times> string) list \<Rightarrow> string \<Rightarrow> jsval" where
  "getProperty obj key =
     (case map_of obj key of
        Some v \<Rightarrow> JSString v
      | None \<Rightarrow> if key \<in> set Object_prototype_keys then JSInherited key else JSUndefined)"

fun truthy :: "jsval \<Rightarrow> bool" where
  "truthy JSUndefined = False"
| "truthy (JSString s) = (s \<noteq> [])"
| "truthy (JSInherited k) = True"

definition js_or :: "jsval \<Rightarrow> jsval \<Rightarrow> jsval" where
  "js_or a b = (if truthy a then a else b)"

text \<open>
  Conversion to a string, as a template literal performs it. The text of a built-in
  function is the engine's; it is given here as V8 prints it.
\<close>

fun js_toString :: "jsval \<Rightarrow> string" where
  "js_toString JSUndefined = ''undefined''"
| "js_toString (JSString s) = s"
| "js_toString (JSInherited k) =
     (if k = ''__proto__'' then ''[object Object]''
      else ''function '' @ (if k = ''constructor'' then ''Object'' else k) @ ''() { [native code] }'')"


section \<open>Type maps (mapColumnType in src/lib/export/sql-exporter.ts, mapPrismaType in src/unnamed/part_002)\<close>

fun typeMap :: "SQLDialect \<Rightarrow> (string \<times> string) list" where
  "typeMap postgresql =
    [(''string'', ''VARCHAR(255)''), (''text'', ''TEXT''), (''integer'', ''INTEGER''),
     (''bigint'', ''BIGINT''), (''float'', ''FLOAT''), (''decimal'', ''DECIMAL(10,2)''),
     (''boolean'', ''BOOLEAN''), (''date'', ''DATE''), (''datetime'', ''TIMESTAMP''),
     (''timestamp'', ''TIMESTAMP''), (''time'', ''TIME''), (''json'', ''JSON''),
     (''jsonb'', ''JSONB''), (''uuid'', ''UUID''), (''binary'', ''BYTEA''),
     (''enum'', ''VARCHAR(50)''), (''array'', ''TEXT[]'')]"
| "typeMap mysql =
    [(''string'', ''VARCHAR(255)''), (''text'', ''TEXT''), (''integer'', ''INT''),
     (''bigint'', ''BIGINT''), (''float'', ''FLOAT''), (''decimal'', ''DECIMAL(10,2)''),
     (''boolean'', ''BOOLEAN''), (''date'', ''DATE''), (''datetime'', ''DATETIME''),
     (''timestamp'', ''TIMESTAMP''), (''time'', ''TIME''), (''json'', ''JSON''),
     (''jsonb'', ''JSON''), (''uuid'', ''CHAR(36)''), (''binary'', ''BLOB''),
     (''enum'', ''ENUM()''), (''array'', ''JSON'')]"
| "typeMap sqlite =
    [(''string'', ''TEXT''), (''text'', ''TEXT''), (''integer'', ''INTEGER''),
     (''bigint'', ''INTEGER''), (''float'', ''REAL''), (''decimal'', ''REAL''),
     (''boolean'', ''INTEGER''), (''date'', ''TEXT''), (''datetime'', ''TEXT''),
     (''timestamp'', ''TEXT''), (''time'', ''TEXT''), (''json'', ''TEXT''),
     (''jsonb'', ''TEXT''), (''uuid'', ''TEXT''), (''binary'', ''BLOB''),
     (''enum'', ''TEXT''), (''array'', ''TEXT'')]"
| "typeMap sqlserver =
    [(''string'', ''NVARCHAR(255)''), (''text'', ''NVARCHAR(MAX)''), (''integer'', ''INT''),
     (''bigint'', ''BIGINT''), (''float'', ''FLOAT''), (''decimal'', ''DECIMAL(10,2)''),
     (''boolean'', ''BIT''), (''date'', ''DATE''), (''datetime'', ''DATETIME2''),
     (''timestamp'', ''DATETIME2''), (''time'', ''TIME''), (''json'', ''NVARCHAR(MAX)''),
     (''jsonb'', ''NVARCHAR(MAX)''), (''uuid'', ''UNIQUEIDENTIFIER''),
     (''binary'', ''VARBINARY(MAX)''), (''enum'', ''NVARCHAR(50)''),
     (''array'', ''NVARCHAR(MAX)'')]"

definition mapColumnType :: "string \<Rightarrow> SQLDialect \<Rightarrow> jsval" where
  "mapColumnType type dialect =
     js_or (getProperty (typeMap dialect) type) (getProperty (typeMap dialect) ''string'')"

definition prismaTypeMap :: "(string \<times> string) list" where
  "prismaTypeMap =
    [(''string'', ''String''), (''text'', ''String''), (''integer'', ''Int''),
     (''bigint'', ''BigInt''), (''float'', ''Float''), (''decimal'', ''Decimal''),
     (''boolean'', ''Boolean''), (''date'', ''DateTime''), (''datetime'', ''DateTime''),
     (''timestamp'', ''DateTime''), (''time'', ''DateTime''), (''json'', ''Json''),
     (''jsonb'', ''Json''), (''uuid'', ''String''), (''binary'', ''Bytes''),
     (''enum'', ''String''), (''array'', ''Json'')]"

definition mapPrismaType :: "string \<Rightarrow> jsval" where
  "mapPrismaType type = js_or (getProperty prismaTypeMap type) (JSString ''String'')"


section \<open>String helpers (ECMAScript built-ins used by the exporters and importers)\<close>

definition dquote :: string where
  \<open>dquote = ''"''\<close>

definition newline :: string where
  "newline = [CHR 0x0A]"

definition isSpace :: "char \<Rightarrow> bool" where
  "isSpace c = (c \<in> set [CHR '' '', CHR 0x09, CHR 0x0A, CHR 0x0B, CHR 0x0C, CHR 0x0D])"

definition isDigit :: "char \<Rightarrow> bool" where
  "isDigit c = (let n = (of_char c :: nat) in 48 \<le> n \<and> n \<le> 57)"

definition isUpper :: "char \<Rightarrow> bool" where
  "isUpper c = (let n = (of_char c :: nat) in 65 \<le> n \<and> n \<le> 90)"

definition isLower :: "char \<Rightarrow> bool" where
  "isLower c = (let n = (of_char c :: nat) in 97 \<le> n \<and> n \<le> 122)"

definition toUpperChar :: "char \<Rightarrow> char" where
  "toUpperChar c = (if isLower c then char_of ((of_char c :: nat) - 32) else c)"

definition toLowerChar :: "char \<Rightarrow> char" where
  "toLowerChar c = (if isUpper c then char_of ((of_char c :: nat) + 32) else c)"

definition toUpperCase :: "string \<Rightarrow> string" where
  "toUpperCase s = map toUpperChar s"

definition toLowerCase :: "string \<Rightarrow> string" where
  "toLowerCase s = map toLowerChar s"

definition trimStart :: "string \<Rightarrow> string" where
  "trimStart s = dropWhile isSpace s"

definition trimEnd :: "string \<Rightarrow> string" where
  "trimEnd s = rev (dropWhile isSpace (rev s))"

definition trim :: "string \<Rightarrow> string" where
  "trim s = trimEnd (trimStart s)"

text \<open>\<open>parts.join(sep)\<close>\<close>

fun join :: "string \<Rightarrow> string list \<Rightarrow> string" where
  "join sep [] = []"
| "join sep [x] = x"
| "join sep (x # y # ys) = x @ sep @ join sep (y # ys)"

text \<open>
  \<open>isNaN(Number(value))\<close> for a string: \<open>Number\<close> trims white space, reads the empty
  string as 0, and otherwise accepts exactly the numeric string literals of ECMAScript
  (a signed decimal literal or \<open>Infinity\<close>, or an unsigned binary, octal or hexadecimal
  integer literal).
\<close>

definition isDigits :: "(char \<Rightarrow> bool) \<Rightarrow> string \<Rightarrow> bool" where
  "isDigits p s = (s \<noteq> [] \<and> list_all p s)"

definition isHexDigit :: "char \<Rightarrow> bool" where
  "isHexDigit c = (isDigit c \<or> c \<in> set ''abcdefABCDEF'')"

definition exponentPart :: "string \<Rightarrow> bool" where
  "exponentPart s =
     (case s of
        [] \<Rightarrow> True
      | e # r \<Rightarrow> (e = CHR ''e'' \<or> e = CHR ''E'') \<and>
          isDigits isDigit (case r of [] \<Rightarrow> [] | g # r' \<Rightarrow> if g = CHR ''+'' \<or> g = CHR ''-'' then r' else r))"

definition unsignedDecimalLiteral :: "string \<Rightarrow> bool" where
  "unsignedDecimalLiteral s =
     (s = ''Infinity'' \<or>
      (let ip = takeWhile isDigit s; r = dropWhile isDigit s in
       case r of
         [] \<Rightarrow> ip \<noteq> []
       | c # r2 \<Rightarrow>
           if c = CHR ''.'' then
             (let fp = takeWhile isDigit r2; r3 = dropWhile isDigit r2
              in (ip \<noteq> [] \<or> fp \<noteq> []) \<and> exponentPart r3)
           else ip \<noteq> [] \<and> exponentPart r))"

definition numericLiteral :: "string \<Rightarrow> bool" where
  "numericLiteral s =
     (case s of
        [] \<Rightarrow> True
      | [c] \<Rightarrow> isDigit c
      | c # d # r \<Rightarrow>
          if c = CHR ''0'' \<and> (d = CHR ''x'' \<or> d = CHR ''X'') then isDigits isHexDigit r
          else if c = CHR ''0'' \<and> (d = CHR ''o'' \<or> d = CHR ''O'') then isDigits (\<lambda>x. x \<in> set ''01234567'') r
          else if c = CHR ''0'' \<and> (d = CHR ''b'' \<or> d = CHR ''B'') then isDigits (\<lambda>x. x \<in> set ''01'') r
          else if c = CHR ''+'' \<or> c = CHR ''-'' then unsignedDecimalLiteral (d # r)
          else unsignedDecimalLiteral s)"

definition Number_isNaN :: "string \<Rightarrow> bool" where
  "Number_isNaN value = (\<not> numericLiteral (trim value))"


section \<open>SQL exporter (src/lib/export/sql-exporter.ts)\<close>

definition dialectName :: "SQLDialect \<Rightarrow> string" where
  "dialectName dialect =
     (case dialect of postgresql \<Rightarrow> ''postgresql'' | mysql \<Rightarrow> ''mysql''
      | sqlite \<Rightarrow> ''sqlite'' | sqlserver \<Rightarrow> ''sqlserver'')"

definition formatTableName :: "string \<Rightarrow> SQLDialect \<Rightarrow> string" where
  "formatTableName name dialect =
     (if dialect = mysql then ''`'' @ name @ ''`'' else dquote @ name @ dquote)"

definition formatColumnName :: "string \<Rightarrow> SQLDialect \<Rightarrow> string" where
  "formatColumnName name dialect =
     (if dialect = mysql then ''`'' @ name @ ''`'' else dquote @ name @ dquote)"

text \<open>\<open>value.replace(/'/g, "''")\<close>\<close>

definition escapeQuotes :: "string \<Rightarrow> string" where
  "escapeQuotes value = concat (map (\<lambda>c. if c = CHR 0x27 then [c, c] else [c]) value)"

definition formatDefaultValue :: "string \<Rightarrow> SQLDialect \<Rightarrow> string" where
  "formatDefaultValue value dialect =
     (if value = [] then []
      else if toUpperCase value = ''CURRENT_TIMESTAMP'' then ''DEFAULT CURRENT_TIMESTAMP''
      else if toUpperCase value = ''NULL'' then ''DEFAULT NULL''
      else if \<not> Number_isNaN value \<and> trim value \<noteq> [] then ''DEFAULT '' @ value
      else if toLowerCase value = ''true''
        then (if dialect = postgresql then ''DEFAULT TRUE'' else ''DEFAULT 1'')
      else if toLowerCase value = ''false''
        then (if dialect = postgresql then ''DEFAULT FALSE'' else ''DEFAULT 0'')
      else ''DEFAULT '' @ [CHR 0x27] @ escapeQuotes value @ [CHR 0x27])"

text \<open>An optional string is truthy when it is present and not empty.\<close>

definition truthyStr :: "string option \<Rightarrow> bool" where
  "truthyStr v = (case v of None \<Rightarrow> False | Some s \<Rightarrow> s \<noteq> [])"

text \<open>
  The sort of the tables: the comparator orders two tables by whether they have a column
  with a foreign key, and \<open>Array.prototype.sort\<close> is stable, so the tables without
  foreign keys come first, each group in its given order.
\<close>

definition hasForeignKeys :: "Table \<Rightarrow> bool" where
  "hasForeignKeys t = list_ex (\<lambda>col. foreignKey col \<noteq> None) (columns t)"

definition sortedTables :: "Schema \<Rightarrow> Table list" where
  "sortedTables schema =
     filter (\<lambda>t. \<not> hasForeignKeys t) (tables schema) @ filter hasForeignKeys (tables schema)"

text \<open>
  The column definition, up to the step that appends the inline primary key, and that
  step.
\<close>

definition columnDefBase :: "SQLDialect \<Rightarrow> Column \<Rightarrow> string" where
  "columnDefBase dialect column =
     (let columnName = formatColumnName (col_name column) dialect;
          columnType = mapColumnType (col_type column) dialect;
          d0 = columnName @ '' '' @ js_toString columnType;
          d1 = (if \<not> nullable column then d0 @ '' NOT NULL'' else d0);
          d2 = (if unique column then d1 @ '' UNIQUE'' else d1)
      in if truthyStr (defaultValue column)
         then d2 @ '' '' @ formatDefaultValue (the (defaultValue column)) dialect
         else d2)"

definition inlinePrimaryKey :: "SQLDialect \<Rightarrow> Table \<Rightarrow> Column \<Rightarrow> string" where
  "inlinePrimaryKey dialect table column =
     (if primaryKey column \<and> length (filter primaryKey (columns table)) = 1 then
        (if dialect = postgresql then '' PRIMARY KEY''
         else if dialect = sqlserver then []
         else '' PRIMARY KEY'')
      else [])"

definition columnDef :: "SQLDialect \<Rightarrow> Table \<Rightarrow> Column \<Rightarrow> string" where
  "columnDef dialect table column =
     columnDefBase dialect column @ inlinePrimaryKey dialect table column"

definition tableColumnDefs :: "SQLDialect \<Rightarrow> Table \<Rightarrow> string list" where
  "tableColumnDefs dialect table = map (columnDef dialect table) (columns table)"

definition tableConstraints :: "SQLDialect \<Rightarrow> Table \<Rightarrow> string list" where
  "tableConstraints dialect table =
     (let primaryKeyColumns = filter primaryKey (columns table) in
      if length primaryKeyColumns > 1 \<or> (length primaryKeyColumns = 1 \<and> dialect = sqlserver)
      then [''PRIMARY KEY ('' @
              join '', '' (map (\<lambda>c. formatColumnName (col_name c) dialect) primaryKeyColumns) @ '')'']
      else [])"

definition createTable :: "SQLDialect \<Rightarrow> Table \<Rightarrow> string list" where
  "createTable dialect table =
     (let sep = '','' @ newline @ ''  '';
          cols = tableColumnDefs dialect table;
          constraints = tableConstraints dialect table
      in [''CREATE TABLE '' @ formatTableName (tbl_name table) dialect @ '' ('',
          ''  '' @ join sep cols @ (if length constraints > 0 then sep @ join sep constraints else []),
          '');'',
          []])"

definition actionClauses :: "string option \<Rightarrow> string option \<Rightarrow> string" where
  "actionClauses onDelete onUpdate =
     (if truthyStr onDelete \<and> onDelete \<noteq> Some ''NO ACTION''
        then '' ON DELETE '' @ the onDelete else []) @
     (if truthyStr onUpdate \<and> onUpdate \<noteq> Some ''NO ACTION''
        then '' ON UPDATE '' @ the onUpdate else [])"

definition alterTable ::
  "SQLDialect \<Rightarrow> string \<Rightarrow> string \<Rightarrow> string \<Rightarrow> string \<Rightarrow> string \<Rightarrow> string \<Rightarrow> string" where
  "alterTable dialect sourceTable constraintName sourceColumn targetTable targetColumn actions =
     ''ALTER TABLE '' @ sourceTable @
     '' ADD CONSTRAINT '' @
       formatColumnName (if dialect = mysql then take 64 constraintName else constraintName) dialect @
     '' FOREIGN KEY ('' @ sourceColumn @ '')'' @
     '' REFERENCES '' @ targetTable @ ''('' @ targetColumn @ '')'' @
     actions @ '';''"

text \<open>
  The statement of a column-level foreign key; \<open>None\<close> when the loop body pushes
  nothing.
\<close>

definition fkStatement :: "Schema \<Rightarrow> SQLDialect \<Rightarrow> Table \<Rightarrow> Column \<Rightarrow> string option" where
  "fkStatement schema dialect table column =
     (case foreignKey column of
        None \<Rightarrow> None
      | Some fk \<Rightarrow>
          (case find (\<lambda>t. tbl_id t = fk_tableId fk) (tables schema) of
             None \<Rightarrow> None
           | Some targetTable \<Rightarrow>
               (case find (\<lambda>c. col_id c = fk_columnId fk) (columns targetTable) of
                  None \<Rightarrow> None
                | Some targetColumn \<Rightarrow>
                    if col_name targetColumn = [] then None
                    else Some (alterTable dialect
                      (formatTableName (tbl_name table) dialect)
                      (''fk_'' @ tbl_name table @ ''_'' @ col_name column @ ''_'' @ tbl_name targetTable)
                      (formatColumnName (col_name column) dialect)
                      (formatTableName (tbl_name targetTable) dialect)
                      (formatColumnName (col_name targetColumn) dialect)
                      (actionClauses (fk_onDelete fk) (fk_onUpdate fk))))))"

definition fkStatements :: "Schema \<Rightarrow> SQLDialect \<Rightarrow> string list" where
  "fkStatements schema dialect =
     concat (map (\<lambda>table. List.map_filter (fkStatement schema dialect table) (columns table))
                 (tables schema))"

text \<open>The statement of a schema-level relationship.\<close>

definition relStatement :: "Schema \<Rightarrow> SQLDialect \<Rightarrow> Relationship \<Rightarrow> string option" where
  "relStatement schema dialect relationship =
     (case (find (\<lambda>t. tbl_id t = sourceTableId relationship) (tables schema),
            find (\<lambda>t. tbl_id t = targetTableId relationship) (tables schema)) of
        (Some sourceTable, Some targetTable) \<Rightarrow>
          (case (find (\<lambda>c. col_id c = sourceColumnId relationship) (columns sourceTable),
                 find (\<lambda>c. col_id c = targetColumnId relationship) (columns targetTable)) of
             (Some sourceColumn, Some targetColumn) \<Rightarrow>
               if foreignKey sourceColumn = None then
                 Some (alterTable dialect
                   (formatTableName (tbl_name sourceTable) dialect)
                   (''rel_'' @ tbl_name sourceTable @ ''_'' @ tbl_name targetTable)
                   (formatColumnName (col_name sourceColumn) dialect)
                   (formatTableName (tbl_name targetTable) dialect)
                   (formatColumnName (col_name targetColumn) dialect)
                   (actionClauses (rel_onDelete relationship) (rel_onUpdate relationship)))
               else None
           | _ \<Rightarrow> None)
      | _ \<Rightarrow> None)"

definition relStatements :: "Schema \<Rightarrow> SQLDialect \<Rightarrow> string list" where
  "relStatements schema dialect =
     List.map_filter (relStatement schema dialect) (relationships schema)"

text \<open>
  \<open>generated\<close> is the text of \<open>new Date().toISOString()\<close> at the time of the call.
\<close>

definition sqlHeader :: "string \<Rightarrow> Schema \<Rightarrow> SQLDialect \<Rightarrow> string list" where
  "sqlHeader generated schema dialect =
     [''-- Schema: '' @ sch_name schema,
      ''-- Generated: '' @ generated,
      ''-- Dialect: '' @ toUpperCase (dialectName dialect),
      []]"

definition statements :: "string \<Rightarrow> Schema \<Rightarrow> SQLDialect \<Rightarrow> string list" where
  "statements generated schema dialect =
     sqlHeader generated schema dialect @
     concat (map (createTable dialect) (sortedTables schema)) @
     fkStatements schema dialect @
     relStatements schema dialect"

definition exportToSQL :: "string \<Rightarrow> Schema \<Rightarrow> SQLDialect \<Rightarrow> string" where
  "exportToSQL generated schema dialect = join newline (statements generated schema dialect)"

text \<open>\<open>s.startsWith(p)\<close>, \<open>s.includes(sub)\<close>\<close>

fun startsWith :: "string \<Rightarrow> string \<Rightarrow> bool" where
  "startsWith s [] = True"
| "startsWith [] (p # ps) = False"
| "startsWith (c # cs) (p # ps) = (c = p \<and> startsWith cs ps)"

fun String_includes :: "string \<Rightarrow> string \<Rightarrow> bool" where
  "String_includes [] sub = (sub = [])"
| "String_includes (c # cs) sub = (startsWith (c # cs) sub \<or> String_includes cs sub)"


section \<open>JSON codec (src/src/lib/export/json-exporter.ts)\<close>

text \<open>
  A JSON document, as \<open>JSON.parse\<close> returns it and \<open>JSON.stringify\<close> writes it. An
  object is the list of its properties (each key once). The text between
  \<open>exportToJSON\<close> and \<open>importFromJSON\<close> is not modelled: \<open>exportToJSON\<close> yields the
  document that its text denotes, and \<open>importFromJSON\<close> takes the outcome of
  \<open>JSON.parse\<close> on its argument, either the message of the \<open>SyntaxError\<close> (\<open>Inl\<close>) or the
  parsed document (\<open>Inr\<close>); \<open>JSON.parse\<close> returns the document that \<open>JSON.stringify\<close>
  wrote.
\<close>

datatype json =
    JNull
  | JBool bool
  | JNum number
  | JStr string
  | JArr "json list"
  | JObj "(string \<times> json) list"

datatype js_error = SyntaxError string | TypeError string | Error string

fun message :: "js_error \<Rightarrow> string" where
  "message (SyntaxError m) = m"
| "message (TypeError m) = m"
| "message (Error m) = m"

text \<open>A value read from a document is a JSON value or \<open>undefined\<close> (\<open>None\<close>).\<close>

fun truthyJ :: "json option \<Rightarrow> bool" where
  "truthyJ None = False"
| "truthyJ (Some JNull) = False"
| "truthyJ (Some (JBool b)) = b"
| "truthyJ (Some (JNum n)) = (n \<noteq> Finite 0 \<and> n \<noteq> NaN)"
| "truthyJ (Some (JStr s)) = (s \<noteq> [])"
| "truthyJ (Some (JArr xs)) = True"
| "truthyJ (Some (JObj ps)) = True"

text \<open>
  Reading a property \<open>v.key\<close> of a value other than \<open>null\<close>: an object yields its own
  property, any other value \<open>undefined\<close> (none of the names the importer reads is a
  member of a built-in prototype). Reading a property of \<open>null\<close> throws a
  \<open>TypeError\<close>, whose text is the engine's (V8's here).
\<close>

definition readProp :: "json \<Rightarrow> string \<Rightarrow> json option" where
  "readProp v key = (case v of JObj props \<Rightarrow> map_of props key | _ \<Rightarrow> None)"

definition cannotRead :: "string \<Rightarrow> string \<Rightarrow> js_error" where
  "cannotRead what key =
     TypeError (''Cannot read properties of '' @ what @ '' (reading '' @ [CHR 0x27] @ key @
                [CHR 0x27] @ '')'')"

text \<open>\<open>v?.key\<close>\<close>

definition optChain :: "json option \<Rightarrow> string \<Rightarrow> json option" where
  "optChain v key =
     (case v of None \<Rightarrow> None | Some JNull \<Rightarrow> None | Some w \<Rightarrow> readProp w key)"

text \<open>\<open>xs.map(f)\<close> with a callback that may throw: the first exception ends the map.\<close>

fun mapE :: "('a \<Rightarrow> 'e + 'b) \<Rightarrow> 'a list \<Rightarrow> 'e + 'b list" where
  "mapE f [] = Inr []"
| "mapE f (x # xs) =
     (case f x of
        Inl e \<Rightarrow> Inl e
      | Inr y \<Rightarrow> (case mapE f xs of Inl e \<Rightarrow> Inl e | Inr ys \<Rightarrow> Inr (y # ys)))"

subsection \<open>exportToJSON\<close>

text \<open>
  \<open>JSON.stringify\<close> leaves out a property whose value is \<open>undefined\<close>, writes a
  non-finite number as \<open>null\<close>, and writes a \<open>Date\<close> through \<open>toJSON\<close>: the ISO text of a
  valid date, \<open>null\<close> for the invalid date.
\<close>

definition optProp :: "string \<Rightarrow> string option \<Rightarrow> (string \<times> json) list" where
  "optProp key v = (case v of None \<Rightarrow> [] | Some s \<Rightarrow> [(key, JStr s)])"

definition numberJ :: "number \<Rightarrow> json" where
  "numberJ n = (case n of Finite r \<Rightarrow> JNum (Finite r) | _ \<Rightarrow> JNull)"

definition dateJ :: "(int \<Rightarrow> string) \<Rightarrow> Date \<Rightarrow> json" where
  "dateJ toISOString d = (case d of Date t \<Rightarrow> JStr (toISOString t) | Invalid_Date \<Rightarrow> JNull)"

definition exportForeignKey :: "ForeignKey \<Rightarrow> json" where
  "exportForeignKey fk =
     JObj ([(''tableId'', JStr (fk_tableId fk)), (''columnId'', JStr (fk_columnId fk))] @
           optProp ''onDelete'' (fk_onDelete fk) @ optProp ''onUpdate'' (fk_onUpdate fk))"

definition exportColumn :: "Column \<Rightarrow> json" where
  "exportColumn column =
     JObj ([(''id'', JStr (col_id column)), (''name'', JStr (col_name column)),
            (''type'', JStr (col_type column)), (''nullable'', JBool (nullable column)),
            (''primaryKey'', JBool (primaryKey column)), (''unique'', JBool (unique column))] @
           optProp ''defaultValue'' (defaultValue column) @
           optProp ''description'' (col_description column) @
           (case foreignKey column of
              None \<Rightarrow> []
            | Some fk \<Rightarrow> [(''foreignKey'', exportForeignKey fk)]))"

definition exportTable :: "bool \<Rightarrow> Table \<Rightarrow> json" where
  "exportTable includePositions table =
     JObj ([(''id'', JStr (tbl_id table)), (''name'', JStr (tbl_name table))] @
           optProp ''description'' (tbl_description table) @
           (if includePositions
            then [(''position'', JObj [(''x'', numberJ (fst (position table))),
                                        (''y'', numberJ (snd (position table)))])]
            else []) @
           [(''columns'', JArr (map exportColumn (columns table)))])"

definition exportRelationship :: "Relationship \<Rightarrow> json" where
  "exportRelationship relationship =
     JObj ([(''id'', JStr (rel_id relationship))] @
           optProp ''name'' (rel_name relationship) @
           [(''sourceTableId'', JStr (sourceTableId relationship)),
            (''sourceColumnId'', JStr (sourceColumnId relationship)),
            (''targetTableId'', JStr (targetTableId relationship)),
            (''targetColumnId'', JStr (targetColumnId relationship)),
            (''type'', JStr (rel_type relationship))] @
           optProp ''onDelete'' (rel_onDelete relationship) @
           optProp ''onUpdate'' (rel_onUpdate relationship))"

text \<open>
  \<open>toISOString\<close> is \<open>Date.prototype.toISOString\<close> on the time value of a valid date,
  \<open>now\<close> the time value that \<open>new Date()\<close> reads.
\<close>

definition exportToJSON :: "(int \<Rightarrow> string) \<Rightarrow> int \<Rightarrow> Schema \<Rightarrow> bool \<Rightarrow> json" where
  "exportToJSON toISOString now schema includePositions =
     JObj [(''version'', JStr ''1.0.0''),
           (''metadata'',
              JObj ([(''name'', JStr (sch_name schema))] @
                    optProp ''description'' (sch_description schema) @
                    [(''createdAt'', dateJ toISOString (createdAt schema)),
                     (''updatedAt'', dateJ toISOString (updatedAt schema)),
                     (''exportedAt'', JStr (toISOString now))])),
           (''tables'', JArr (map (exportTable includePositions) (tables schema))),
           (''relationships'', JArr (map exportRelationship (relationships schema)))]"

subsection \<open>importFromJSON\<close>

text \<open>
  The importer copies what it reads without checking it, so the properties of the
  objects it builds hold arbitrary JSON values or \<open>undefined\<close>. \<open>it_color\<close> is the
  \<open>color\<close> property of \<open>Table\<close>, which the importer never creates.
\<close>

record ImportedForeignKey =
  ifk_tableId :: "json option"
  ifk_columnId :: "json option"
  ifk_onDelete :: "json option"
  ifk_onUpdate :: "json option"

record ImportedColumn =
  ic_id :: "json option"
  ic_name :: "json option"
  ic_type :: "json option"
  ic_nullable :: "json option"
  ic_primaryKey :: "json option"
  ic_unique :: "json option"
  ic_defaultValue :: "json option"
  ic_description :: "json option"
  ic_foreignKey :: "ImportedForeignKey option"

record ImportedTable =
  it_id :: "json option"
  it_name :: "json option"
  it_position :: json
  it_description :: "json option"
  it_columns :: "ImportedColumn list"
  it_color :: "json option"

record ImportedRelationship =
  ir_id :: "json option"
  ir_name :: "json option"
  ir_sourceTableId :: "json option"
  ir_sourceColumnId :: "json option"
  ir_targetTableId :: "json option"
  ir_targetColumnId :: "json option"
  ir_type :: "json option"
  ir_onDelete :: "json option"
  ir_onUpdate :: "json option"

record ImportedSchema =
  is_id :: json
  is_name :: json
  is_description :: "json option"
  is_tables :: "ImportedTable list"
  is_relationships :: "ImportedRelationship list"
  is_createdAt :: Date
  is_updatedAt :: Date
  is_version :: json

definition importColumn :: "json \<Rightarrow> js_error + ImportedColumn" where
  "importColumn column =
     (if column = JNull then Inl (cannotRead ''null'' ''id'')
      else Inr
        \<lparr>ic_id = readProp column ''id'',
         ic_name = readProp column ''name'',
         ic_type = readProp column ''type'',
         ic_nullable = readProp column ''nullable'',
         ic_primaryKey = readProp column ''primaryKey'',
         ic_unique = readProp column ''unique'',
         ic_defaultValue = readProp column ''defaultValue'',
         ic_description = readProp column ''description'',
         ic_foreignKey =
           (if truthyJ (readProp column ''foreignKey'') then
              (let fk = the (readProp column ''foreignKey'') in
               Some \<lparr>ifk_tableId = readProp fk ''tableId'',
                     ifk_columnId = readProp fk ''columnId'',
                     ifk_onDelete = readProp fk ''onDelete'',
                     ifk_onUpdate = readProp fk ''onUpdate''\<rparr>)
            else None)\<rparr>)"

definition importTable :: "json \<Rightarrow> js_error + ImportedTable" where
  "importTable table =
     (if table = JNull then Inl (cannotRead ''null'' ''id'')
      else
        (case (case readProp table ''columns'' of
                 None \<Rightarrow> Inl (cannotRead ''undefined'' ''map'')
               | Some JNull \<Rightarrow> Inl (cannotRead ''null'' ''map'')
               | Some (JArr cs) \<Rightarrow> mapE importColumn cs
               | Some _ \<Rightarrow> Inl (TypeError ''table.columns.map is not a function'')) of
           Inl e \<Rightarrow> Inl e
         | Inr cols \<Rightarrow> Inr
             \<lparr>it_id = readProp table ''id'',
              it_name = readProp table ''name'',
              it_position =
                (if truthyJ (readProp table ''position'') then the (readProp table ''position'')
                 else JObj [(''x'', JNum (Finite 0)), (''y'', JNum (Finite 0))]),
              it_description = readProp table ''description'',
              it_columns = cols,
              it_color = None\<rparr>))"

definition importRelationship :: "json \<Rightarrow> js_error + ImportedRelationship" where
  "importRelationship rel =
     (if rel = JNull then Inl (cannotRead ''null'' ''id'')
      else Inr
        \<lparr>ir_id = readProp rel ''id'',
         ir_name = readProp rel ''name'',
         ir_sourceTableId = readProp rel ''sourceTableId'',
         ir_sourceColumnId = readProp rel ''sourceColumnId'',
         ir_targetTableId = readProp rel ''targetTableId'',
         ir_targetColumnId = readProp rel ''targetColumnId'',
         ir_type = readProp rel ''type'',
         ir_onDelete = readProp rel ''onDelete'',
         ir_onUpdate = readProp rel ''onUpdate''\<rparr>)"

text \<open>
  The body of the \<open>try\<close> block after \<open>JSON.parse\<close>. \<open>Date_new\<close> is the \<open>Date\<close>
  constructor applied to a value read from the document; \<open>now1\<close> and \<open>now2\<close> are the
  dates that the two calls \<open>new Date()\<close> would read.
\<close>

definition importData ::
  "(json \<Rightarrow> Date) \<Rightarrow> Date \<Rightarrow> Date \<Rightarrow> json \<Rightarrow> js_error + ImportedSchema" where
  "importData Date_new now1 now2 data =
     (if data = JNull then Inl (cannotRead ''null'' ''tables'')
      else
        (case readProp data ''tables'' of
           Some (JArr ts) \<Rightarrow>
             (case mapE importTable ts of
                Inl e \<Rightarrow> Inl e
              | Inr tabs \<Rightarrow>
                  (case (if truthyJ (readProp data ''relationships'') then
                           (case the (readProp data ''relationships'') of
                              JArr rs \<Rightarrow> mapE importRelationship rs
                            | _ \<Rightarrow> Inl (TypeError ''(data.relationships || []).map is not a function''))
                         else Inr []) of
                     Inl e \<Rightarrow> Inl e
                   | Inr rels \<Rightarrow>
                       (let metadata = readProp data ''metadata'';
                            name = (if truthyJ (optChain metadata ''name'')
                                    then the (optChain metadata ''name'')
                                    else JStr ''Imported Schema'')
                        in Inr
                          \<lparr>is_id = name,
                           is_name = name,
                           is_description = optChain metadata ''description'',
                           is_tables = tabs,
                           is_relationships = rels,
                           is_createdAt =
                             (if truthyJ (optChain metadata ''createdAt'')
                              then Date_new (the (optChain metadata ''createdAt'')) else now1),
                           is_updatedAt =
                             (if truthyJ (optChain metadata ''updatedAt'')
                              then Date_new (the (optChain metadata ''updatedAt'')) else now2),
                           is_version =
                             (if truthyJ (readProp data ''version'')
                              then the (readProp data ''version'') else JNum (Finite 1))\<rparr>)))
         | _ \<Rightarrow> Inl (Error ''Invalid JSON format: missing tables array'')))"

text \<open>
  \<open>importFromJSON\<close>: \<open>parsed\<close> is the outcome of \<open>JSON.parse(jsonString)\<close>. Every
  exception of the \<open>try\<close> block is rethrown as an \<open>Error\<close> whose message is returned as
  \<open>Inl\<close>.
\<close>

definition importFromJSON ::
  "(json \<Rightarrow> Date) \<Rightarrow> Date \<Rightarrow> Date \<Rightarrow> string + json \<Rightarrow> string + ImportedSchema" where
  "importFromJSON Date_new now1 now2 parsed =
     (case (case parsed of
              Inl m \<Rightarrow> Inl (SyntaxError m)
            | Inr data \<Rightarrow> importData Date_new now1 now2 data) of
        Inl e \<Rightarrow> Inl (''Failed to import JSON: '' @ message e)
      | Inr schema \<Rightarrow> Inr schema)"

subsection \<open>A typed schema as the object the importer would build from it\<close>

definition asImportedForeignKey :: "ForeignKey \<Rightarrow> ImportedForeignKey" where
  "asImportedForeignKey fk =
     \<lparr>ifk_tableId = Some (JStr (fk_tableId fk)),
      ifk_columnId = Some (JStr (fk_columnId fk)),
      ifk_onDelete = map_option JStr (fk_onDelete fk),
      ifk_onUpdate = map_option JStr (fk_onUpdate fk)\<rparr>"

definition asImportedColumn :: "Column \<Rightarrow> ImportedColumn" where
  "asImportedColumn c =
     \<lparr>ic_id = Some (JStr (col_id c)),
      ic_name = Some (JStr (col_name c)),
      ic_type = Some (JStr (col_type c)),
      ic_nullable = Some (JBool (nullable c)),
      ic_primaryKey = Some (JBool (primaryKey c)),
      ic_unique = Some (JBool (unique c)),
      ic_defaultValue = map_option JStr (defaultValue c),
      ic_description = map_option JStr (col_description c),
      ic_foreignKey = map_option asImportedForeignKey (foreignKey c)\<rparr>"

definition asImportedTable :: "Table \<Rightarrow> ImportedTable" where
  "asImportedTable t =
     \<lparr>it_id = Some (JStr (tbl_id t)),
      it_name = Some (JStr (tbl_name t)),
      it_position = JObj [(''x'', JNum (fst (position t))), (''y'', JNum (snd (position t)))],
      it_description = map_option JStr (tbl_description t),
      it_columns = map asImportedColumn (columns t),
      it_color = map_option JStr (color t)\<rparr>"

definition asImportedRelationship :: "Relationship \<Rightarrow> ImportedRelationship" where
  "asImportedRelationship r =
     \<lparr>ir_id = Some (JStr (rel_id r)),
      ir_name = map_option JStr (rel_name r),
      ir_sourceTableId = Some (JStr (sourceTableId r)),
      ir_sourceColumnId = Some (JStr (sourceColumnId r)),
      ir_targetTableId = Some (JStr (targetTableId r)),
      ir_targetColumnId = Some (JStr (targetColumnId r)),
      ir_type = Some (JStr (rel_type r)),
      ir_onDelete = map_option JStr (rel_onDelete r),
      ir_onUpdate = map_option JStr (rel_onUpdate r)\<rparr>"


subsection \<open>Dates as ISO texts\<close>

text \<open>
  The closed examples below need the two platform functions that the codec takes as
  parameters. \<open>Date_toISOString\<close> writes a time value as \<open>Date.prototype.toISOString\<close>
  does (the proleptic Gregorian calendar in UTC, \<open>YYYY-MM-DDTHH:mm:ss.sssZ\<close>, years
  outside 0000 to 9999 with a sign and six digits). \<open>Date_ofISO\<close> is the \<open>Date\<close>
  constructor on a string of that 24-character format; on every other value this
  stand-in yields the invalid date.
\<close>

definition civil_from_days :: "int \<Rightarrow> int \<times> int \<times> int" where
  "civil_from_days z =
     (let z' = z + 719468;
          era = z' div 146097;
          doe = z' - era * 146097;
          yoe = (doe - doe div 1460 + doe div 36524 - doe div 146096) div 365;
          doy = doe - (365 * yoe + yoe div 4 - yoe div 100);
          mp = (5 * doy + 2) div 153;
          d = doy - (153 * mp + 2) div 5 + 1;
          m = (if mp < 10 then mp + 3 else mp - 9);
          y = yoe + era * 400
      in (if m \<le> 2 then y + 1 else y, m, d))"

definition days_from_civil :: "int \<Rightarrow> int \<Rightarrow> int \<Rightarrow> int" where
  "days_from_civil y m d =
     (let y' = (if m \<le> 2 then y - 1 else y);
          era = y' div 400;
          yoe = y' - era * 400;
          doy = (153 * (if m > 2 then m - 3 else m + 9) + 2) div 5 + d - 1;
          doe = yoe * 365 + yoe div 4 - yoe div 100 + doy
      in era * 146097 + doe - 719468)"

definition digitChar :: "int \<Rightarrow> char" where
  "digitChar n = ''0123456789'' ! nat n"

primrec pad :: "nat \<Rightarrow> int \<Rightarrow> string" where
  "pad 0 n = []"
| "pad (Suc w) n = pad w (n div 10) @ [digitChar (n mod 10)]"

definition Date_toISOString :: "int \<Rightarrow> string" where
  "Date_toISOString t =
     (let days = t div 86400000;
          ms = t mod 86400000;
          ymd = civil_from_days days;
          y = fst ymd
      in (if 0 \<le> y \<and> y \<le> 9999 then pad 4 y
          else (if y < 0 then ''-'' else ''+'') @ pad 6 (abs y)) @
         ''-'' @ pad 2 (fst (snd ymd)) @ ''-'' @ pad 2 (snd (snd ymd)) @
         ''T'' @ pad 2 (ms div 3600000) @ '':'' @ pad 2 (ms mod 3600000 div 60000) @
         '':'' @ pad 2 (ms mod 60000 div 1000) @ ''.'' @ pad 3 (ms mod 1000) @ ''Z'')"

definition digitsValue :: "string \<Rightarrow> int option" where
  "digitsValue s =
     (if s \<noteq> [] \<and> list_all isDigit s
      then Some (foldl (\<lambda>acc c. 10 * acc + (int (of_char c) - 48)) 0 s)
      else None)"

definition Date_ofISO :: "json \<Rightarrow> Date" where
  "Date_ofISO v =
     (case v of
        JStr s \<Rightarrow>
          (if length s = 24 \<and> s ! 4 = CHR ''-'' \<and> s ! 7 = CHR ''-'' \<and> s ! 10 = CHR ''T'' \<and>
              s ! 13 = CHR '':'' \<and> s ! 16 = CHR '':'' \<and> s ! 19 = CHR ''.'' \<and> s ! 23 = CHR ''Z''
           then
             (case (digitsValue (take 4 s), digitsValue (take 2 (drop 5 s)),
                    digitsValue (take 2 (drop 8 s)), digitsValue (take 2 (drop 11 s)),
                    digitsValue (take 2 (drop 14 s)), digitsValue (take 2 (drop 17 s)),
                    digitsValue (take 3 (drop 20 s))) of
                (Some y, Some mo, Some d, Some h, Some mi, Some sec, Some ms) \<Rightarrow>
                  (if 1 \<le> mo \<and> mo \<le> 12 \<and> 1 \<le> d \<and> h \<le> 23 \<and> mi \<le> 59 \<and> sec \<le> 59 \<and>
                      civil_from_days (days_from_civil y mo d) = (y, mo, d)
                   then Date (days_from_civil y mo d * 86400000 + h * 3600000 + mi * 60000 +
                              sec * 1000 + ms)
                   else Invalid_Date)
              | _ \<Rightarrow> Invalid_Date)
           else Invalid_Date)
      | _ \<Rightarrow> Invalid_Date)"


section \<open>Django importer (src/src/lib/import/django-importer.ts)\<close>

subsection \<open>Strings and regular expressions\<close>

text \<open>
  The character classes of the regular expressions, over ASCII: \<open>\w\<close>, \<open>\s\<close>
  (\<open>isSpace\<close>), \<open>\d\<close> (\<open>isDigit\<close>), and the line terminators that \<open>.\<close> does not
  match.
\<close>

definition isWord :: "char \<Rightarrow> bool" where
  "isWord c = (isLower c \<or> isUpper c \<or> isDigit c \<or> c = CHR ''_'')"

definition isLineTerminator :: "char \<Rightarrow> bool" where
  "isLineTerminator c = (c = CHR 0x0A \<or> c = CHR 0x0D)"

definition isQuote :: "char \<Rightarrow> bool" where
  "isQuote c = (c = CHR 0x27 \<or> c = CHR 0x22 \<or> c = CHR 0x60)"

text \<open>\<open>s.split('\n')\<close>: \<open>splitLines cur s\<close> with the characters of the current line in \<open>cur\<close>, reversed.\<close>

fun splitLines :: "string \<Rightarrow> string \<Rightarrow> string list" where
  "splitLines cur [] = [rev cur]"
| "splitLines cur (c # cs) =
     (if c = CHR 0x0A then rev cur # splitLines [] cs else splitLines (c # cur) cs)"

definition split_newline :: "string \<Rightarrow> string list" where
  "split_newline s = splitLines [] s"

text \<open>\<open>s.search(/\S/)\<close>: the index of the first character that is not white space, or -1.\<close>

definition search_nonspace :: "string \<Rightarrow> int" where
  "search_nonspace s = (if list_all isSpace s then - 1 else int (length (takeWhile isSpace s)))"

text \<open>\<open>args.replace(/\s+/g, ' ')\<close>; the flag tells that the previous character was white space.\<close>

fun collapseSpaces :: "bool \<Rightarrow> string \<Rightarrow> string" where
  "collapseSpaces b [] = []"
| "collapseSpaces b (c # cs) =
     (if isSpace c then (if b then collapseSpaces True cs else CHR '' '' # collapseSpaces True cs)
      else c # collapseSpaces False cs)"

text \<open>
  A regular expression without the sticky flag is tried at every start position, from
  left to right: \<open>firstMatch m s\<close> is the result of the first position of \<open>s\<close> at which
  the matcher \<open>m\<close> (the expression anchored at the start of its argument) succeeds.
\<close>

fun firstMatch :: "(string \<Rightarrow> 'a option) \<Rightarrow> string \<Rightarrow> 'a option" where
  "firstMatch m [] = m []"
| "firstMatch m (c # cs) = (case m (c # cs) of Some r \<Rightarrow> Some r | None \<Rightarrow> firstMatch m cs)"

text \<open>
  \<open>lazyUntil stop p s\<close>: the lazy repetition \<open>.*?\<close> (\<open>stop = isLineTerminator\<close>) or
  \<open>[\s\S]*?\<close> (\<open>stop\<close> nowhere true) followed by something that matches where \<open>p\<close>
  holds: the shortest prefix of \<open>s\<close>, free of stopping characters, after which \<open>p\<close>
  holds, with the rest of \<open>s\<close>.
\<close>

fun lazyUntil :: "(char \<Rightarrow> bool) \<Rightarrow> (string \<Rightarrow> bool) \<Rightarrow> string \<Rightarrow> (string \<times> string) option" where
  "lazyUntil stop p [] = (if p [] then Some ([], []) else None)"
| "lazyUntil stop p (c # cs) =
     (if p (c # cs) then Some ([], c # cs)
      else if stop c then None
      else (case lazyUntil stop p cs of None \<Rightarrow> None | Some (pre, rest) \<Rightarrow> Some (c # pre, rest)))"

text \<open>
  \<open>keyword\s*=\s*\<close> at the start of \<open>s\<close>: the rest of \<open>s\<close> after the white space that
  follows the equals sign, and that white space.
\<close>

definition matchAssign :: "string \<Rightarrow> string \<Rightarrow> (string \<times> string) option" where
  "matchAssign keyword s =
     (if startsWith s keyword then
        (case dropWhile isSpace (drop (length keyword) s) of
           [] \<Rightarrow> None
         | c # r \<Rightarrow> if c = CHR ''='' then Some (takeWhile isSpace r, dropWhile isSpace r) else None)
      else None)"

text \<open>\<open>['"`]([^'"`]+)['"`]\<close> at the start of \<open>s\<close>: the text between the quotes.\<close>

definition matchQuoted :: "string \<Rightarrow> string option" where
  "matchQuoted s =
     (case s of
        [] \<Rightarrow> None
      | q # r \<Rightarrow>
          if isQuote q \<and> takeWhile (\<lambda>c. \<not> isQuote c) r \<noteq> [] \<and> dropWhile (\<lambda>c. \<not> isQuote c) r \<noteq> []
          then Some (takeWhile (\<lambda>c. \<not> isQuote c) r) else None)"

text \<open>The decimal text of a natural number.\<close>

fun showNat :: "nat \<Rightarrow> string" where
  "showNat n = (if n < 10 then [digitChar (int n)] else showNat (n div 10) @ [digitChar (int (n mod 10))])"

declare showNat.simps [simp del]

subsection \<open>Parsed models\<close>

record Relation =
  rl_model :: string
  rl_field :: string
  rl_onDelete :: "string option"

record ManyToMany =
  mm_model :: string
  mm_through :: "string option"

record DjangoField =
  df_name :: string
  df_type :: jsval
  df_nullable :: bool
  df_primaryKey :: bool
  df_unique :: bool
  df_defaultValue :: "string option"
  df_foreignKey :: "Relation option"
  df_oneToOneField :: "Relation option"
  df_manyToManyField :: "ManyToMany option"
  df_description :: "string option"

record DjangoModel =
  dm_name :: string
  dm_tableName :: "string option"
  dm_fields :: "DjangoField list"
  dm_description :: "string option"

subsection \<open>mapDjangoType, snakeCase, mapDjangoOnDelete\<close>

definition djangoTypeMap :: "(string \<times> string) list" where
  "djangoTypeMap =
    [(''CharField'', ''string''), (''TextField'', ''text''), (''IntegerField'', ''integer''),
     (''BigIntegerField'', ''bigint''), (''SmallIntegerField'', ''integer''),
     (''AutoField'', ''integer''), (''BigAutoField'', ''bigint''), (''FloatField'', ''float''),
     (''DecimalField'', ''decimal''), (''BooleanField'', ''boolean''), (''DateField'', ''date''),
     (''DateTimeField'', ''datetime''), (''TimeField'', ''time''), (''JSONField'', ''json''),
     (''UUIDField'', ''uuid''), (''BinaryField'', ''binary''), (''EmailField'', ''string''),
     (''URLField'', ''string''), (''SlugField'', ''string''),
     (''PositiveIntegerField'', ''integer''), (''PositiveSmallIntegerField'', ''integer''),
     (''PositiveBigIntegerField'', ''bigint''), (''ForeignKey'', ''integer''),
     (''OneToOneField'', ''integer''), (''ManyToManyField'', ''json'')]"

definition mapDjangoType :: "string \<Rightarrow> jsval" where
  "mapDjangoType djangoType = js_or (getProperty djangoTypeMap djangoType) (JSString ''string'')"

definition snakeCase :: "string \<Rightarrow> string" where
  "snakeCase str =
     (let s1 = concat (map (\<lambda>c. if isUpper c then [CHR ''_'', c] else [c]) str);
          s2 = (case s1 of [] \<Rightarrow> [] | c # r \<Rightarrow> if c = CHR ''_'' then r else s1)
      in toLowerCase s2)"

definition onDeleteMapping :: "(string \<times> string) list" where
  "onDeleteMapping =
    [(''CASCADE'', ''CASCADE''), (''SET_NULL'', ''SET NULL''), (''PROTECT'', ''RESTRICT''),
     (''RESTRICT'', ''RESTRICT''), (''DO_NOTHING'', ''NO ACTION'')]"

definition mapDjangoOnDelete :: "string option \<Rightarrow> jsval" where
  "mapDjangoOnDelete onDelete =
     (if truthyStr onDelete then getProperty onDeleteMapping (the onDelete) else JSUndefined)"

subsection \<open>parseFieldArguments\<close>

text \<open>
  \<open>/default\s*=\s*([^,\)]+(?:\([^)]*\))?)/\<close>: the first group is the longest run of
  characters other than comma and closing parenthesis after the white space that follows
  the equals sign (the optional part after it has nothing to match at the end of that
  run); when the run is empty, the white space gives back its last character to the
  group.
\<close>

definition defaultMatch :: "string \<Rightarrow> string option" where
  "defaultMatch cleanArgs =
     firstMatch (\<lambda>s.
        case matchAssign ''default'' s of
          None \<Rightarrow> None
        | Some (ws, r) \<Rightarrow>
            (let run = takeWhile (\<lambda>c. c \<noteq> CHR '','' \<and> c \<noteq> CHR '')'') r in
             if run \<noteq> [] then Some run
             else if ws \<noteq> [] then Some [last ws]
             else None)) cleanArgs"

text \<open>\<open>defaultValue.replace(/^['"`]|['"`]$/g, '')\<close>\<close>

definition stripQuotes :: "string \<Rightarrow> string" where
  "stripQuotes s =
     (let s1 = (case s of [] \<Rightarrow> [] | c # r \<Rightarrow> if isQuote c then r else s)
      in if s1 \<noteq> [] \<and> isQuote (last s1) then butlast s1 else s1)"

text \<open>
  \<open>/^['"`]?([^'"\s,\)]+)['"`]?/\<close>: the group is the longest run of characters other
  than single quote, double quote, white space, comma and closing parenthesis, after an
  optional opening quote; a backquote belongs to the run when the run would be empty
  after it.
\<close>

definition modelChar :: "char \<Rightarrow> bool" where
  "modelChar c = (c \<noteq> CHR 0x27 \<and> c \<noteq> CHR 0x22 \<and> \<not> isSpace c \<and> c \<noteq> CHR '','' \<and> c \<noteq> CHR '')'')"

definition modelMatch :: "string \<Rightarrow> string option" where
  "modelMatch cleanArgs =
     (case cleanArgs of
        [] \<Rightarrow> None
      | c # r \<Rightarrow>
          if isQuote c \<and> takeWhile modelChar r \<noteq> [] then Some (takeWhile modelChar r)
          else if takeWhile modelChar cleanArgs \<noteq> [] then Some (takeWhile modelChar cleanArgs)
          else None)"

text \<open>\<open>/on_delete\s*=\s*models\.(\w+)/\<close>\<close>

definition onDeleteMatch :: "string \<Rightarrow> string option" where
  "onDeleteMatch cleanArgs =
     firstMatch (\<lambda>s.
        case matchAssign ''on_delete'' s of
          None \<Rightarrow> None
        | Some (ws, r) \<Rightarrow>
            if startsWith r ''models.'' \<and> takeWhile isWord (drop 7 r) \<noteq> []
            then Some (takeWhile isWord (drop 7 r)) else None) cleanArgs"

text \<open>\<open>/through\s*=\s*['"`]([^'"`]+)['"`]/\<close>\<close>

definition throughMatch :: "string \<Rightarrow> string option" where
  "throughMatch cleanArgs =
     firstMatch (\<lambda>s.
        case matchAssign ''through'' s of None \<Rightarrow> None | Some (ws, r) \<Rightarrow> matchQuoted r) cleanArgs"

text \<open>\<open>/max_length\s*=\s*(\d+)/\<close>\<close>

definition maxLengthMatch :: "string \<Rightarrow> bool" where
  "maxLengthMatch cleanArgs =
     (firstMatch (\<lambda>s.
        case matchAssign ''max_length'' s of
          None \<Rightarrow> None
        | Some (ws, r) \<Rightarrow> if takeWhile isDigit r \<noteq> [] then Some (takeWhile isDigit r) else None)
        cleanArgs \<noteq> None)"

definition relationOf :: "string \<Rightarrow> string \<Rightarrow> Relation" where
  "relationOf cleanArgs relatedModel =
     \<lparr>rl_model = relatedModel, rl_field = ''id'', rl_onDelete = onDeleteMatch cleanArgs\<rparr>"

definition parseFieldArguments :: "string \<Rightarrow> DjangoField \<Rightarrow> string \<Rightarrow> DjangoField" where
  "parseFieldArguments args field fieldType =
     (let cleanArgs = trim (collapseSpaces False args);
          explicitNull = (String_includes cleanArgs ''null=True'' \<or>
                          String_includes cleanArgs ''blank=True'');
          f1 = (if String_includes cleanArgs ''null=True'' then field\<lparr>df_nullable := True\<rparr>
                else if String_includes cleanArgs ''null=False'' then field\<lparr>df_nullable := False\<rparr>
                else field);
          f2 = (if String_includes cleanArgs ''blank=True'' then f1\<lparr>df_nullable := True\<rparr> else f1);
          f3 = (if String_includes cleanArgs ''unique=True'' then f2\<lparr>df_unique := True\<rparr> else f2);
          f4 = (case defaultMatch cleanArgs of
                  None \<Rightarrow> f3
                | Some g \<Rightarrow> f3\<lparr>df_defaultValue := Some (stripQuotes (trim g))\<rparr>);
          f5 = (if fieldType = ''ForeignKey'' then
                  (case modelMatch cleanArgs of
                     None \<Rightarrow> f4
                   | Some relatedModel \<Rightarrow>
                       f4\<lparr>df_foreignKey := Some (relationOf cleanArgs relatedModel),
                          df_nullable := (if \<not> explicitNull then False else df_nullable f4)\<rparr>)
                else if fieldType = ''OneToOneField'' then
                  (case modelMatch cleanArgs of
                     None \<Rightarrow> f4
                   | Some relatedModel \<Rightarrow>
                       f4\<lparr>df_oneToOneField := Some (relationOf cleanArgs relatedModel),
                          df_nullable := (if \<not> explicitNull then False else df_nullable f4)\<rparr>)
                else if fieldType = ''ManyToManyField'' then
                  (case modelMatch cleanArgs of
                     None \<Rightarrow> f4
                   | Some relatedModel \<Rightarrow>
                       f4\<lparr>df_manyToManyField :=
                            Some \<lparr>mm_model = relatedModel, mm_through = throughMatch cleanArgs\<rparr>,
                          df_type := JSString ''json''\<rparr>)
                else f4);
          f6 = (if maxLengthMatch cleanArgs then f5\<lparr>df_type := JSString ''string''\<rparr> else f5);
          f7 = (if String_includes cleanArgs ''primary_key=True''
                then f6\<lparr>df_primaryKey := True, df_nullable := False\<rparr> else f6)
      in if String_includes cleanArgs ''AutoField'' \<or> String_includes cleanArgs ''BigAutoField''
         then f7\<lparr>df_primaryKey := True, df_nullable := False, df_type := JSString ''integer''\<rparr>
         else f7)"

subsection \<open>parseFields\<close>

text \<open>
  \<open>^(\w+)\s*=\s*models\.(\w+)\<close>, the common start of the two field expressions: the
  field name, the field type and the text after the type.
\<close>

definition fieldPrefix :: "string \<Rightarrow> (string \<times> string \<times> string) option" where
  "fieldPrefix line =
     (if takeWhile isWord line = [] then None
      else
        (case matchAssign [] (dropWhile isWord line) of
           None \<Rightarrow> None
         | Some (ws, r) \<Rightarrow>
             if startsWith r ''models.'' \<and> takeWhile isWord (drop 7 r) \<noteq> []
             then Some (takeWhile isWord line, takeWhile isWord (drop 7 r),
                        dropWhile isWord (drop 7 r))
             else None))"

text \<open>
  \<open>(.*)\)\<close> after an opening parenthesis: the greedy \<open>.*\<close> runs to the end of the line
  and gives back characters down to the last closing parenthesis.
\<close>

definition toLastParen :: "string \<Rightarrow> string option" where
  "toLastParen body =
     (let seg = takeWhile (\<lambda>c. \<not> isLineTerminator c) body in
      if CHR '')'' \<in> set seg then Some (rev (tl (dropWhile (\<lambda>c. c \<noteq> CHR '')'') (rev seg))))
      else None)"

text \<open>
  \<open>/^(\w+)\s*=\s*models\.(\w+)(?:\((.*)\))?/\<close>: name, type and the third group
  (\<open>undefined\<close> when the optional part does not match).
\<close>

definition fieldMatch :: "string \<Rightarrow> (string \<times> string \<times> string option) option" where
  "fieldMatch line =
     (case fieldPrefix line of
        None \<Rightarrow> None
      | Some (name, ftype, r) \<Rightarrow>
          Some (name, ftype,
                (case r of [] \<Rightarrow> None | c # body \<Rightarrow> if c = CHR ''('' then toLastParen body else None)))"

text \<open>\<open>/^(\w+)\s*=\s*models\.(\w+)\s*\((.*)\)/\<close>\<close>

definition multiFieldMatch :: "string \<Rightarrow> (string \<times> string \<times> string) option" where
  "multiFieldMatch fullFieldDef =
     (case fieldPrefix fullFieldDef of
        None \<Rightarrow> None
      | Some (name, ftype, r) \<Rightarrow>
          (case dropWhile isSpace r of
             [] \<Rightarrow> None
           | c # body \<Rightarrow>
               if c = CHR ''('' then
                 (case toLastParen body of None \<Rightarrow> None | Some a \<Rightarrow> Some (name, ftype, a))
               else None))"

text \<open>
  The field built from a matched declaration: the initial field, \<open>parseFieldArguments\<close>,
  and the two special cases that follow it in both branches of \<open>parseFields\<close>.
\<close>

definition makeField :: "string \<Rightarrow> string \<Rightarrow> string \<Rightarrow> DjangoField" where
  "makeField fieldName fieldType fieldArgs =
     (let field = \<lparr>df_name = fieldName, df_type = mapDjangoType fieldType, df_nullable = True,
                    df_primaryKey = False, df_unique = False, df_defaultValue = None,
                    df_foreignKey = None, df_oneToOneField = None, df_manyToManyField = None,
                    df_description = None\<rparr>;
          f1 = parseFieldArguments fieldArgs field fieldType;
          f2 = (if fieldType = ''AutoField'' \<or> fieldType = ''BigAutoField''
                then f1\<lparr>df_primaryKey := True, df_nullable := False, df_type := JSString ''integer''\<rparr>
                else f1)
      in if fieldType = ''ForeignKey'' \<and> df_foreignKey f2 \<noteq> None
           then f2\<lparr>df_type := JSString ''integer''\<rparr>
         else if fieldType = ''OneToOneField'' \<and> df_oneToOneField f2 \<noteq> None
           then f2\<lparr>df_type := JSString ''integer''\<rparr>
         else if fieldType = ''ManyToManyField'' \<and> df_manyToManyField f2 \<noteq> None
           then f2\<lparr>df_type := JSString ''json''\<rparr>
         else f2)"

definition countChar :: "char \<Rightarrow> string \<Rightarrow> int" where
  "countChar c s = int (length (filter (\<lambda>x. x = c) s))"

text \<open>
  The inner loop of the multi-line branch: the lines after the current one are appended
  while the parentheses are unbalanced; the result is the collected text and the number
  of lines taken.
\<close>

fun collectLines :: "int \<Rightarrow> string \<Rightarrow> string list \<Rightarrow> string \<times> nat" where
  "collectLines braceCount fullFieldDef [] = (fullFieldDef, 0)"
| "collectLines braceCount fullFieldDef (l # ls) =
     (if braceCount > 0 then
        (case collectLines (braceCount + countChar (CHR ''('') l - countChar (CHR '')'') l)
                (fullFieldDef @ '' '' @ trim l) ls of
           (full, k) \<Rightarrow> (full, Suc k))
      else (fullFieldDef, 0))"

definition skippedLine :: "string \<Rightarrow> bool" where
  \<open>skippedLine line =
     (line = [] \<or> startsWith line ''#'' \<or> startsWith line ''class '' \<or> startsWith line ''def '' \<or>
      startsWith line ''"""'')\<close>

text \<open>The loop of \<open>parseFields\<close> over the lines that remain; the result is the list of fields pushed.\<close>

fun parseFieldLines :: "string list \<Rightarrow> DjangoField list" where
  "parseFieldLines [] = []"
| "parseFieldLines (l # ls) =
     (if skippedLine (trim l) then parseFieldLines ls
      else
        (case fieldMatch (trim l) of
           Some (fieldName, fieldType, fieldArgs) \<Rightarrow>
             if fieldName = ''Meta'' \<or> fieldType = ''Meta'' then parseFieldLines ls
             else makeField fieldName fieldType (case fieldArgs of None \<Rightarrow> [] | Some a \<Rightarrow> a) #
                  parseFieldLines ls
         | None \<Rightarrow>
             if String_includes (trim l) ''models.'' \<and> String_includes (trim l) ''('' then
               (case multiFieldMatch
                       (fst (collectLines (countChar (CHR ''('') (trim l) - countChar (CHR '')'') (trim l))
                               (trim l) ls)) of
                  Some (fieldName, fieldType, fieldArgs) \<Rightarrow>
                    makeField fieldName fieldType fieldArgs #
                    parseFieldLines
                      (drop (snd (collectLines
                          (countChar (CHR ''('') (trim l) - countChar (CHR '')'') (trim l)) (trim l) ls)) ls)
                | None \<Rightarrow> parseFieldLines ls)
             else parseFieldLines ls))"

definition parseFields :: "string \<Rightarrow> DjangoField list" where
  "parseFields classContent = parseFieldLines (split_newline classContent)"

subsection \<open>Class declarations\<close>

text \<open>
  \<open>/class\s+(\w+)\s*\((.*?)\):/\<close> at the start of \<open>s\<close>: class name, base-class list
  and the length of the match. The white space and the name are the longest runs (what
  follows them accepts none of their characters), and the lazy \<open>.*?\<close> ends at the first
  \<open>):\<close> of the line.
\<close>

definition matchClassAt :: "string \<Rightarrow> (string \<times> string \<times> nat) option" where
  "matchClassAt s =
     (if startsWith s ''class'' \<and> takeWhile isSpace (drop 5 s) \<noteq> [] \<and>
         takeWhile isWord (dropWhile isSpace (drop 5 s)) \<noteq> [] then
        (let ws = takeWhile isSpace (drop 5 s);
             className = takeWhile isWord (dropWhile isSpace (drop 5 s));
             r = dropWhile isWord (dropWhile isSpace (drop 5 s))
         in case dropWhile isSpace r of
              [] \<Rightarrow> None
            | c # body \<Rightarrow>
                if c = CHR ''('' then
                  (case lazyUntil isLineTerminator (\<lambda>t. startsWith t ''):'') body of
                     None \<Rightarrow> None
                   | Some (inheritance, rest) \<Rightarrow>
                       Some (className, inheritance,
                             5 + length ws + length className + length (takeWhile isSpace r) + 1 +
                             length inheritance + 2))
                else None)
      else None)"

text \<open>
  The loop \<open>while ((match = classRegex.exec(cleanContent)) !== null)\<close>: every match of
  the global expression, from left to right, each search starting where the previous
  match ended. \<open>classMatches i s\<close> lists (index, class name, base-class list, length) for
  the text \<open>s\<close> that starts at index \<open>i\<close>; a match is at least one character long.
\<close>

fun classMatches :: "nat \<Rightarrow> string \<Rightarrow> (nat \<times> string \<times> string \<times> nat) list" where
  "classMatches i [] = []"
| "classMatches i (c # cs) =
     (case matchClassAt (c # cs) of
        None \<Rightarrow> classMatches (Suc i) cs
      | Some (className, inheritance, len) \<Rightarrow>
          (i, className, inheritance, len) # classMatches (i + len) (drop (len - 1) cs))"

subsection \<open>findClassEnd\<close>

text \<open>
  The loop of \<open>findClassEnd\<close> over the lines after the class line; \<open>i\<close> is the index
  of the first line of the list. \<open>None\<close> when the loop runs to the end of the content.
\<close>

fun findEndLoop :: "int \<Rightarrow> nat \<Rightarrow> string list \<Rightarrow> nat option" where
  "findEndLoop baseIndent i [] = None"
| "findEndLoop baseIndent i (line # ls) =
     (if trim line = [] then findEndLoop baseIndent (i + length line + 1) ls
      else if (startsWith (trim line) ''class '' \<or> startsWith (trim line) ''def '') \<and>
              search_nonspace line \<le> baseIndent then Some i
      else findEndLoop baseIndent (i + length line + 1) ls)"

definition findClassEnd :: "string \<Rightarrow> nat \<Rightarrow> nat" where
  "findClassEnd content startIndex =
     (let classLineStart =
            startIndex - length (takeWhile (\<lambda>c. c \<noteq> CHR 0x0A) (rev (take startIndex content)));
          classLine = takeWhile (\<lambda>c. c \<noteq> CHR 0x0A) (drop classLineStart content);
          baseIndent = search_nonspace classLine;
          i = classLineStart + length classLine + 1
      in case findEndLoop baseIndent i (split_newline (drop i content)) of
           Some lineStart \<Rightarrow> lineStart
         | None \<Rightarrow> length content)"

subsection \<open>The Meta class and the description\<close>

text \<open>\<open>class\s+Meta\<close> at the start of \<open>s\<close>: the text after it.\<close>

definition matchClassMeta :: "string \<Rightarrow> string option" where
  "matchClassMeta s =
     (if startsWith s ''class'' \<and> takeWhile isSpace (drop 5 s) \<noteq> [] \<and>
         startsWith (dropWhile isSpace (drop 5 s)) ''Meta''
      then Some (drop 4 (dropWhile isSpace (drop 5 s))) else None)"

text \<open>
  \<open>/class\s+Meta\s*:([\s\S]*?)(?=class|\Z)/\<close>: the first group. Without the \<open>u\<close> flag
  \<open>\Z\<close> is the letter \<open>Z\<close>, so the group ends before the next \<open>class\<close> or \<open>Z\<close>, and
  the expression does not match when neither follows.
\<close>

definition metaMatch :: "string \<Rightarrow> string option" where
  "metaMatch classContent =
     firstMatch (\<lambda>s.
        case matchClassMeta s of
          None \<Rightarrow> None
        | Some r \<Rightarrow>
            (case dropWhile isSpace r of
               [] \<Rightarrow> None
             | c # body \<Rightarrow>
                 if c = CHR '':'' then
                   map_option fst
                     (lazyUntil (\<lambda>c. False) (\<lambda>t. startsWith t ''class'' \<or> startsWith t ''Z'') body)
                 else None)) classContent"

text \<open>\<open>/db_table\s*=\s*['"`]([^'"`]+)['"`]/\<close>\<close>

definition dbTableMatch :: "string \<Rightarrow> string option" where
  "dbTableMatch metaContent =
     firstMatch (\<lambda>s.
        case matchAssign ''db_table'' s of None \<Rightarrow> None | Some (ws, r) \<Rightarrow> matchQuoted r) metaContent"

text \<open>\<open>/class\s+Meta.*?"""([\s\S]*?)"""/\<close>: the first group.\<close>

definition docstringMatch :: "string \<Rightarrow> string option" where
  \<open>docstringMatch classContent =
     firstMatch (\<lambda>s.
        case matchClassMeta s of
          None \<Rightarrow> None
        | Some r \<Rightarrow>
            (case lazyUntil isLineTerminator (\<lambda>t. startsWith t ''"""'') r of
               None \<Rightarrow> None
             | Some (pre, rest) \<Rightarrow>
                 map_option fst (lazyUntil (\<lambda>c. False) (\<lambda>t. startsWith t ''"""'') (drop 3 rest))))
       classContent\<close>

subsection \<open>parseDjangoModels: from the text to the models\<close>

definition stripComment :: "string \<Rightarrow> string" where
  "stripComment line =
     (if CHR ''#'' \<in> set line then trimEnd (takeWhile (\<lambda>c. c \<noteq> CHR ''#'') line) else line)"

definition cleanContent :: "string \<Rightarrow> string" where
  "cleanContent content =
     join newline (filter (\<lambda>line. trim line \<noteq> []) (map stripComment (split_newline content)))"

definition idField :: DjangoField where
  "idField =
     \<lparr>df_name = ''id'', df_type = JSString ''integer'', df_nullable = False, df_primaryKey = True,
      df_unique = True, df_defaultValue = None, df_foreignKey = None, df_oneToOneField = None,
      df_manyToManyField = None,
      df_description = Some ''Auto-generated primary key (Django default)''\<rparr>"

text \<open>The model built from the body of one class (the text from the end of the match to \<open>findClassEnd\<close>).\<close>

definition parseModel :: "string \<Rightarrow> string \<Rightarrow> DjangoModel" where
  "parseModel className classContent =
     (let fields = parseFields classContent in
      \<lparr>dm_name = className,
       dm_tableName = (case metaMatch classContent of
                         None \<Rightarrow> None
                       | Some metaContent \<Rightarrow> dbTableMatch metaContent),
       dm_fields = (if list_ex df_primaryKey fields then fields else idField # fields),
       dm_description = map_option trim (docstringMatch classContent)\<rparr>)"

definition classContentOf :: "string \<Rightarrow> nat \<Rightarrow> string" where
  "classContentOf content classStart =
     take (findClassEnd content classStart - classStart) (drop classStart content)"

definition parseModels :: "string \<Rightarrow> DjangoModel list" where
  "parseModels content =
     (let clean = cleanContent content in
      map (\<lambda>(index, className, inheritance, len).
             parseModel className (classContentOf clean (index + len)))
          (filter (\<lambda>(index, className, inheritance, len). String_includes inheritance ''models.Model'')
                  (classMatches 0 clean)))"

subsection \<open>convertDjangoToSchema\<close>

text \<open>
  The schema as the importer builds it. The column type and the \<open>onDelete\<close> action are
  results of lookups in object literals, so they are JavaScript values; the positions
  are integers.
\<close>

record DjForeignKey =
  dfk_tableId :: string
  dfk_columnId :: string
  dfk_onDelete :: jsval
  dfk_onUpdate :: string

record DjColumn =
  dc_id :: string
  dc_name :: string
  dc_type :: jsval
  dc_nullable :: bool
  dc_primaryKey :: bool
  dc_unique :: bool
  dc_defaultValue :: "string option"
  dc_description :: "string option"
  dc_foreignKey :: "DjForeignKey option"

record DjTable =
  dt_id :: string
  dt_name :: string
  dt_position :: "int \<times> int"
  dt_columns :: "DjColumn list"
  dt_description :: "string option"

record DjRelationship =
  dr_id :: string
  dr_sourceTableId :: string
  dr_sourceColumnId :: string
  dr_targetTableId :: string
  dr_targetColumnId :: string
  dr_type :: string
  dr_name :: "string option"
  dr_onDelete :: jsval
  dr_onUpdate :: "string option"

record DjSchema =
  ds_id :: string
  ds_name :: string
  ds_description :: "string option"
  ds_tables :: "DjTable list"
  ds_relationships :: "DjRelationship list"
  ds_createdAt :: Date
  ds_updatedAt :: Date
  ds_version :: number

text \<open>\<open>model.tableName || snakeCase(model.name)\<close>\<close>

definition tableNameOf :: "DjangoModel \<Rightarrow> string" where
  "tableNameOf model =
     (if truthyStr (dm_tableName model) then the (dm_tableName model) else snakeCase (dm_name model))"

text \<open>
  The two lookup objects are filled by \<open>lookup[key] = model\<close> for each model in turn, so
  a later model replaces an earlier one under the same key. Assigning the key
  \<open>__proto__\<close> creates no property: it makes the model the prototype of the lookup
  object, and reading \<open>__proto__\<close> yields that prototype. A read of a key that is not an
  own property continues in the prototype chain: the prototype model, if one was set
  (its properties \<open>name\<close> and \<open>fields\<close>, and \<open>tableName\<close> and \<open>description\<close> when
  assigned), then \<open>Object.prototype\<close>. \<open>Foreign\<close> stands for a truthy value found there
  that is no model of the list; \<open>Absent\<close> for \<open>undefined\<close> or a falsy value.
\<close>

datatype lookup = Found DjangoModel | Foreign | Absent

definition modelLookup :: "DjangoModel list \<Rightarrow> string \<Rightarrow> lookup" where
  "modelLookup models key =
     (case (if key = ''__proto__'' then None else find (\<lambda>m. dm_name m = key) (rev models)) of
        Some m \<Rightarrow> Found m
      | None \<Rightarrow>
          (case find (\<lambda>m. dm_name m = ''__proto__'') (rev models) of
             Some p \<Rightarrow>
               if key = ''__proto__'' then Found p
               else if key = ''name'' \<or> key = ''fields'' \<or>
                       (key = ''tableName'' \<and> truthyStr (dm_tableName p)) \<or>
                       (key = ''description'' \<and> truthyStr (dm_description p)) \<or>
                       key \<in> set Object_prototype_keys then Foreign
               else Absent
           | None \<Rightarrow> if key \<in> set Object_prototype_keys then Foreign else Absent))"

text \<open>
  \<open>tableToModelLookup[table.name]\<close> is only read for the name of a table, which is the
  key under which the model of that table was entered: the read yields the last model
  with that table name.
\<close>

definition tableToModelLookup :: "DjangoModel list \<Rightarrow> string \<Rightarrow> DjangoModel option" where
  "tableToModelLookup models key = find (\<lambda>m. tableNameOf m = key) (rev models)"

text \<open>First pass: the tables. \<open>importId\<close> is the decimal text of \<open>Date.now()\<close>.\<close>

definition placeholderKey :: "Relation \<Rightarrow> DjForeignKey" where
  "placeholderKey r =
     \<lparr>dfk_tableId = [], dfk_columnId = [],
      dfk_onDelete = js_or (mapDjangoOnDelete (rl_onDelete r)) (JSString ''CASCADE''),
      dfk_onUpdate = ''CASCADE''\<rparr>"

definition toColumn :: "string \<Rightarrow> string \<Rightarrow> nat \<Rightarrow> DjangoField \<Rightarrow> DjColumn" where
  "toColumn importId tableName columnCounter field =
     \<lparr>dc_id = tableName @ ''_'' @ df_name field @ ''_'' @ importId @ ''_'' @ showNat columnCounter,
      dc_name = df_name field,
      dc_type = df_type field,
      dc_nullable = df_nullable field,
      dc_primaryKey = df_primaryKey field,
      dc_unique = df_unique field,
      dc_defaultValue = df_defaultValue field,
      dc_description = df_description field,
      dc_foreignKey =
        (case df_foreignKey field of
           Some r \<Rightarrow> Some (placeholderKey r)
         | None \<Rightarrow> (case df_oneToOneField field of
                       Some r \<Rightarrow> Some (placeholderKey r)
                     | None \<Rightarrow> None))\<rparr>"

definition toTable :: "string \<Rightarrow> nat \<Rightarrow> nat \<Rightarrow> DjangoModel \<Rightarrow> DjTable" where
  "toTable importId index columnCounter model =
     \<lparr>dt_id = tableNameOf model,
      dt_name = tableNameOf model,
      dt_position = (100 + int (index mod 3) * 300, 100 + int (index div 3) * 250),
      dt_columns =
        map (\<lambda>(k, field). toColumn importId (tableNameOf model) k field)
            (zip [columnCounter ..< columnCounter + length (dm_fields model)] (dm_fields model)),
      dt_description = dm_description model\<rparr>"

fun firstPass :: "string \<Rightarrow> nat \<Rightarrow> nat \<Rightarrow> DjangoModel list \<Rightarrow> DjTable list" where
  "firstPass importId index columnCounter [] = []"
| "firstPass importId index columnCounter (model # ms) =
     toTable importId index columnCounter model #
     firstPass importId (Suc index) (columnCounter + length (dm_fields model)) ms"

text \<open>Second pass: for one column, the column with its foreign key resolved and the relationship pushed.\<close>

definition targetColumnOf :: "DjTable \<Rightarrow> DjColumn option" where
  "targetColumnOf targetTable =
     (case find dc_primaryKey (dt_columns targetTable) of
        Some c \<Rightarrow> Some c
      | None \<Rightarrow>
          (case find (\<lambda>c. dc_name c = ''id'') (dt_columns targetTable) of
             Some c \<Rightarrow> Some c
           | None \<Rightarrow> (case dt_columns targetTable of [] \<Rightarrow> None | c # cs \<Rightarrow> Some c)))"

text \<open>\<open>relatedDjangoModel.tableName || snakeCase(relatedModelName)\<close>, when the lookup is truthy.\<close>

definition targetTableNameOf :: "lookup \<Rightarrow> string \<Rightarrow> string option" where
  "targetTableNameOf relatedDjangoModel relatedModelName =
     (case relatedDjangoModel of
        Found m \<Rightarrow> Some (if truthyStr (dm_tableName m) then the (dm_tableName m)
                         else snakeCase relatedModelName)
      | Foreign \<Rightarrow> Some (snakeCase relatedModelName)
      | Absent \<Rightarrow> None)"

definition resolveColumn ::
  "DjangoModel list \<Rightarrow> DjTable list \<Rightarrow> DjTable \<Rightarrow> DjColumn \<Rightarrow> DjColumn \<times> DjRelationship option" where
  "resolveColumn models tabs table column =
     (case dc_foreignKey column of
        None \<Rightarrow> (column, None)
      | Some fk \<Rightarrow>
          if dfk_tableId fk \<noteq> [] then (column, None)
          else
            (case tableToModelLookup models (dt_name table) of
               None \<Rightarrow> (column, None)
             | Some djangoModel \<Rightarrow>
                 (case find (\<lambda>f. df_name f = dc_name column) (dm_fields djangoModel) of
                    None \<Rightarrow> (column, None)
                  | Some djangoField \<Rightarrow>
                      (case (case df_foreignKey djangoField of
                               Some r \<Rightarrow> Some r
                             | None \<Rightarrow> df_oneToOneField djangoField) of
                         None \<Rightarrow> (column, None)
                       | Some relationship \<Rightarrow>
                           (case targetTableNameOf (modelLookup models (rl_model relationship))
                                   (rl_model relationship) of
                              None \<Rightarrow> (column, None)
                            | Some targetTableName \<Rightarrow>
                                (case find (\<lambda>t. dt_name t = targetTableName) tabs of
                                   None \<Rightarrow> (column, None)
                                 | Some targetTable \<Rightarrow>
                                     (case targetColumnOf targetTable of
                                        None \<Rightarrow> (column, None)
                                      | Some targetColumn \<Rightarrow>
                                          (column\<lparr>dc_foreignKey :=
                                             Some (fk\<lparr>dfk_tableId := dt_id targetTable,
                                                      dfk_columnId := dc_id targetColumn\<rparr>)\<rparr>,
                                           Some
                                             \<lparr>dr_id = ''rel_'' @ dt_id table @ ''_'' @ dc_name column @
                                                      ''_'' @ dt_id targetTable @ ''_'' @
                                                      dc_name targetColumn,
                                              dr_sourceTableId = dt_id table,
                                              dr_sourceColumnId = dc_id column,
                                              dr_targetTableId = dt_id targetTable,
                                              dr_targetColumnId = dc_id targetColumn,
                                              dr_type = (if df_oneToOneField djangoField \<noteq> None
                                                         then ''one-to-one'' else ''many-to-one''),
                                              dr_name = None,
                                              dr_onDelete =
                                                js_or (dfk_onDelete fk)
                                                  (case df_oneToOneField djangoField of
                                                     None \<Rightarrow> JSUndefined
                                                   | Some r \<Rightarrow>
                                                       (case rl_onDelete r of
                                                          None \<Rightarrow> JSUndefined
                                                        | Some a \<Rightarrow> JSString a)),
                                              dr_onUpdate = Some ''CASCADE''\<rparr>))))))))"

definition secondPassTables :: "DjangoModel list \<Rightarrow> DjTable list \<Rightarrow> DjTable list" where
  "secondPassTables models tabs =
     map (\<lambda>table. table\<lparr>dt_columns :=
            map (\<lambda>column. fst (resolveColumn models tabs table column)) (dt_columns table)\<rparr>) tabs"

definition secondPassRelationships :: "DjangoModel list \<Rightarrow> DjTable list \<Rightarrow> DjRelationship list" where
  "secondPassRelationships models tabs =
     concat (map (\<lambda>table.
        List.map_filter (\<lambda>column. snd (resolveColumn models tabs table column)) (dt_columns table))
        tabs)"

text \<open>Third pass: the relationship of one many-to-many field of the model of a table.\<close>

definition manyToManyRelationship ::
  "DjangoModel list \<Rightarrow> DjTable list \<Rightarrow> DjTable \<Rightarrow> DjangoField \<Rightarrow> DjRelationship option" where
  "manyToManyRelationship models tabs table djangoField =
     (case df_manyToManyField djangoField of
        None \<Rightarrow> None
      | Some m2m \<Rightarrow>
          (case targetTableNameOf (modelLookup models (mm_model m2m)) (mm_model m2m) of
             None \<Rightarrow> None
           | Some targetTableName \<Rightarrow>
               (case find (\<lambda>t. dt_name t = targetTableName) tabs of
                  None \<Rightarrow> None
                | Some targetTable \<Rightarrow>
                    Some \<lparr>dr_id = ''m2m_'' @ dt_id table @ ''_'' @ dt_id targetTable @ ''_'' @
                                  df_name djangoField,
                          dr_sourceTableId = dt_id table,
                          dr_sourceColumnId = [],
                          dr_targetTableId = dt_id targetTable,
                          dr_targetColumnId = [],
                          dr_type = ''many-to-many'',
                          dr_name = Some (df_name djangoField),
                          dr_onDelete = JSUndefined,
                          dr_onUpdate = None\<rparr>)))"

definition thirdPassRelationships :: "DjangoModel list \<Rightarrow> DjTable list \<Rightarrow> DjRelationship list" where
  "thirdPassRelationships models tabs =
     concat (map (\<lambda>table.
        case tableToModelLookup models (dt_name table) of
          None \<Rightarrow> []
        | Some djangoModel \<Rightarrow>
            List.map_filter (manyToManyRelationship models tabs table) (dm_fields djangoModel))
        tabs)"

text \<open>
  \<open>stamp\<close> is the decimal text of the second \<open>Date.now()\<close>, \<open>created\<close> and \<open>updated\<close>
  are the dates read by the two calls \<open>new Date()\<close>.
\<close>

definition convertDjangoToSchema ::
  "string \<Rightarrow> string \<Rightarrow> Date \<Rightarrow> Date \<Rightarrow> DjangoModel list \<Rightarrow> DjSchema" where
  "convertDjangoToSchema importId stamp created updated models =
     (let tabs = firstPass importId 0 0 models in
      \<lparr>ds_id = ''imported_'' @ stamp,
       ds_name = ''Imported Django Schema'',
       ds_description = Some ''Schema imported from Django models'',
       ds_tables = secondPassTables models tabs,
       ds_relationships = secondPassRelationships models tabs @ thirdPassRelationships models tabs,
       ds_createdAt = created,
       ds_updatedAt = updated,
       ds_version = Finite 1\<rparr>)"

definition parseDjangoModels :: "string \<Rightarrow> string \<Rightarrow> Date \<Rightarrow> Date \<Rightarrow> string \<Rightarrow> DjSchema" where
  "parseDjangoModels importId stamp created updated content =
     convertDjangoToSchema importId stamp created updated (parseModels content)"


section \<open>Export dispatcher (ExportManager.export, src/unnamed/part_003)\<close>

text \<open>
  \<open>options.format\<close> is a string at run time. The dispatcher either hands the schema to
  one exporter or throws; the model returns the call it delegates to (\<open>Inr\<close>) or the
  message of the \<open>Error\<close> it throws (\<open>Inl\<close>).
\<close>

record ExportOptions =
  format :: string
  sqlDialect :: "SQLDialect option"
  includePositions :: "bool option"
  includeDescriptions :: "bool option"




section \<open>Example schemas\<close>

definition ex_column :: "string \<Rightarrow> string \<Rightarrow> bool \<Rightarrow> ForeignKey option \<Rightarrow> Column" where
  "ex_column name type pk fk =
     \<lparr>col_id = name, col_name = name, col_type = type, nullable = \<not> pk, primaryKey = pk,
      unique = False, defaultValue = None, foreignKey = fk, col_description = None\<rparr>"



definition ex_fk :: "string \<Rightarrow> string \<Rightarrow> ForeignKey" where
  "ex_fk t c =
     \<lparr>fk_tableId = t, fk_columnId = c, fk_onDelete = Some ''CASCADE'', fk_onUpdate = None\<rparr>"

definition ex_rel :: "string \<Rightarrow> string \<Rightarrow> string \<Rightarrow> string \<Rightarrow> Relationship" where
  "ex_rel st sc tt tc =
     \<lparr>rel_id = ''rel_1'', sourceTableId = st, sourceColumnId = sc, targetTableId = tt,
      targetColumnId = tc, rel_type = ''many-to-one'', rel_name = None,
      rel_onDelete = None, rel_onUpdate = None\<rparr>"







text \<open>A schema with a described table, a foreign key and a relationship, for the JSON codec.\<close>

definition ex_json_schema :: Schema where
  "ex_json_schema =
     \<lparr>sch_id = ''schema_1'', sch_name = ''blog'', sch_description = Some ''A small blog'',
      tables =
        [\<lparr>tbl_id = ''t_users'', tbl_name = ''users'', position = (Finite 120, Finite (-45 / 2)),
          columns = [ex_column ''id'' ''integer'' True None],
          tbl_description = Some ''Accounts'', color = None\<rparr>,
         \<lparr>tbl_id = ''t_posts'', tbl_name = ''posts'', position = (Finite 480, Finite 300),
          columns = [ex_column ''id'' ''integer'' True None,
                     ex_column ''author_id'' ''integer'' False (Some (ex_fk ''t_users'' ''id''))],
          tbl_description = None, color = None\<rparr>],
      relationships = [ex_rel ''t_posts'' ''author_id'' ''t_users'' ''id''],
      createdAt = Date 1700000000000, updatedAt = Date 1700000360500, version = Finite 1\<rparr>"


definition ex_user_post_source :: string where
  "ex_user_post_source =
     ''from django.db import models'' @ newline @
     newline @
     ''class User(models.Model):'' @ newline @
     ''    name = models.CharField(max_length=100)'' @ newline @
     newline @
     ''class Post(models.Model):'' @ newline @
     ''    author = models.ForeignKey('' @ [CHR 0x27] @ ''User'' @ [CHR 0x27] @
       '', on_delete=models.CASCADE)'' @ newline"

text \<open>
  A model with no primary-key field and no \<open>AutoField\<close>, whose only field mentions the
  word in its help text:
  \<^verbatim>\<open>
  class Tag(models.Model):
      label = models.CharField(max_length=50, help_text='shown next to the AutoField id')
  \<close>
\<close>

definition ex_tag_source :: string where
  "ex_tag_source =
     ''class Tag(models.Model):'' @ newline @
     ''    label = models.CharField(max_length=50, help_text='' @ [CHR 0x27] @
       ''shown next to the AutoField id'' @ [CHR 0x27] @ '')'' @ newline"

text \<open>
  \<open>User\<close> with a declared primary key, referenced by a bare identifier:
  \<^verbatim>\<open>
  class User(models.Model):
      uid = models.UUIDField(primary_key=True)
      name = models.CharField(max_length=100)

  class Post(models.Model):
      author = models.ForeignKey(User, on_delete=models.SET_NULL, null=True)
  \<close>
\<close>

definition ex_uuid_user_source :: string where
  "ex_uuid_user_source =
     ''class User(models.Model):'' @ newline @
     ''    uid = models.UUIDField(primary_key=True)'' @ newline @
     ''    name = models.CharField(max_length=100)'' @ newline @
     newline @
     ''class Post(models.Model):'' @ newline @
     ''    author = models.ForeignKey(User, on_delete=models.SET_NULL, null=True)'' @ newline"


section \<open>Properties of the type maps\<close>




lemma mapColumnType_enumerated:
  "\<forall>t \<in> set COLUMN_TYPES. \<exists>s. mapColumnType t dialect = JSString s \<and> s \<noteq> []"
  by (cases dialect)
     (simp_all add: COLUMN_TYPES_def mapColumnType_def getProperty_def js_or_def)

lemma mapPrismaType_enumerated:
  "\<forall>t \<in> set COLUMN_TYPES. \<exists>s. mapPrismaType t = JSString s \<and> s \<noteq> []"
  by (simp add: COLUMN_TYPES_def mapPrismaType_def prismaTypeMap_def getProperty_def js_or_def)

lemma mapColumnType_fallback:
  assumes "t \<notin> set COLUMN_TYPES" and "t \<notin> set Object_prototype_keys"
  shows "mapColumnType t dialect = getProperty (typeMap dialect) ''string''"
  using assms
  by (cases dialect)
     (simp_all add: COLUMN_TYPES_def mapColumnType_def getProperty_def js_or_def)

lemma mapPrismaType_fallback:
  assumes "t \<notin> set COLUMN_TYPES" and "t \<notin> set Object_prototype_keys"
  shows "mapPrismaType t = JSString ''String''"
  using assms
  by (simp add: COLUMN_TYPES_def mapPrismaType_def prismaTypeMap_def getProperty_def js_or_def)

text \<open>
  Claim C6. Every type of the enumeration maps to a non-empty string, for every dialect
  and for Prisma (\<open>mapColumnType_enumerated\<close>, \<open>mapPrismaType_enumerated\<close>), and a
  string outside the enumeration maps to the fallback unless it names a member
  inherited from \<open>Object.prototype\<close> (\<open>mapColumnType_fallback\<close>,
  \<open>mapPrismaType_fallback\<close>). For such a name the claim fails: the type string
  \<open>constructor\<close> is outside the enumeration, and both type-mapping functions return
  the inherited member found by the lookup, which is not a string, in place of the
  fallback type (\<open>VARCHAR(255)\<close> for PostgreSQL, \<open>String\<close> for Prisma).
\<close>

theorem mapColumnType_inherited_member:
  "''constructor'' \<notin> set COLUMN_TYPES \<and>
   mapColumnType ''constructor'' postgresql = JSInherited ''constructor'' \<and>
   getProperty (typeMap postgresql) ''string'' = JSString ''VARCHAR(255)'' \<and>
   mapPrismaType ''constructor'' = JSInherited ''constructor''"
  by (simp add: COLUMN_TYPES_def mapColumnType_def mapPrismaType_def prismaTypeMap_def
      getProperty_def js_or_def Object_prototype_keys_def)


section \<open>Properties of the export dispatcher\<close>




section \<open>Properties of the SQL exporter\<close>

















section \<open>Properties of the JSON codec\<close>

lemma mapE_map:
  assumes "\<forall>x \<in> set xs. f (g x) = Inr (h x)"
  shows "mapE f (map g xs) = Inr (map h xs)"
  using assms by (induction xs) simp_all

lemma importColumn_exportColumn: "importColumn (exportColumn c) = Inr (asImportedColumn c)"
  by (simp add: importColumn_def exportColumn_def asImportedColumn_def readProp_def optProp_def
      exportForeignKey_def asImportedForeignKey_def Let_def
      split: option.splits)

lemma importRelationship_exportRelationship:
  "importRelationship (exportRelationship r) = Inr (asImportedRelationship r)"
  by (simp add: importRelationship_def exportRelationship_def asImportedRelationship_def
      readProp_def optProp_def split: option.splits)

lemma importTable_exportTable_positions:
  assumes "color t = None" and "position t = (Finite x, Finite y)"
  shows "importTable (exportTable True t) = Inr (asImportedTable t)"
  using assms
  by (simp add: importTable_def exportTable_def asImportedTable_def readProp_def optProp_def
      numberJ_def mapE_map [where h = asImportedColumn] importColumn_exportColumn
      split: option.splits)

lemma importTable_exportTable_no_positions:
  assumes "color t = None"
  shows "importTable (exportTable False t) =
    Inr ((asImportedTable t)\<lparr>it_position := JObj [(''x'', JNum (Finite 0)), (''y'', JNum (Finite 0))]\<rparr>)"
  using assms
  by (simp add: importTable_def exportTable_def asImportedTable_def readProp_def optProp_def
      mapE_map [where h = asImportedColumn] importColumn_exportColumn
      split: option.splits)

lemma importData_exportToJSON:
  assumes "mapE importTable (map (exportTable p) (tables S)) = Inr tabs"
    and "sch_name S \<noteq> []"
    and "createdAt S = Date tc" and "updatedAt S = Date tu"
    and "toISOString tc \<noteq> []" and "Date_new (JStr (toISOString tc)) = Date tc"
    and "toISOString tu \<noteq> []" and "Date_new (JStr (toISOString tu)) = Date tu"
  shows "importData Date_new now1 now2 (exportToJSON toISOString now S p) =
     Inr \<lparr>is_id = JStr (sch_name S), is_name = JStr (sch_name S),
          is_description = map_option JStr (sch_description S),
          is_tables = tabs,
          is_relationships = map asImportedRelationship (relationships S),
          is_createdAt = Date tc, is_updatedAt = Date tu, is_version = JStr ''1.0.0''\<rparr>"
proof -
  have rels: "mapE importRelationship (map exportRelationship (relationships S)) =
      Inr (map asImportedRelationship (relationships S))"
    by (rule mapE_map) (simp add: importRelationship_exportRelationship)
  show ?thesis
    using assms rels
    by (simp add: importData_def exportToJSON_def readProp_def optChain_def optProp_def
        dateJ_def Let_def split: option.splits)
qed

text \<open>
  Claim C1, amended. Let \<open>S\<close> be a schema with a non-empty name and valid
  \<open>createdAt\<close> and \<open>updatedAt\<close> dates (whose ISO texts the \<open>Date\<close> constructor reads
  back), whose tables have no \<open>color\<close> and finite positions. Then
  \<open>importFromJSON(exportToJSON(S, true))\<close> succeeds and equals \<open>S\<close> in name,
  description, tables (with their positions, columns and foreign keys), relationships,
  \<open>createdAt\<close> and \<open>updatedAt\<close>; its \<open>id\<close> is the name of \<open>S\<close>. The \<open>version\<close> is not
  preserved and is left out of the statement. With positions omitted
  (\<open>exportToJSON(S, false)\<close>) the re-imported tables equal those of \<open>S\<close> except that
  every position is \<open>{x: 0, y: 0}\<close>.
\<close>

theorem json_round_trip:
  assumes "sch_name S \<noteq> []"
    and "createdAt S = Date tc" and "updatedAt S = Date tu"
    and "toISOString tc \<noteq> []" and "Date_new (JStr (toISOString tc)) = Date tc"
    and "toISOString tu \<noteq> []" and "Date_new (JStr (toISOString tu)) = Date tu"
    and "\<forall>t \<in> set (tables S). color t = None \<and> (\<exists>x y. position t = (Finite x, Finite y))"
  shows "(\<exists>r. importFromJSON Date_new now1 now2 (Inr (exportToJSON toISOString now S True)) = Inr r \<and>
            is_id r = JStr (sch_name S) \<and>
            is_name r = JStr (sch_name S) \<and>
            is_description r = map_option JStr (sch_description S) \<and>
            is_tables r = map asImportedTable (tables S) \<and>
            is_relationships r = map asImportedRelationship (relationships S) \<and>
            is_createdAt r = createdAt S \<and> is_updatedAt r = updatedAt S) \<and>
         (\<exists>r. importFromJSON Date_new now1 now2 (Inr (exportToJSON toISOString now S False)) = Inr r \<and>
            is_tables r =
              map (\<lambda>t. (asImportedTable t)
                     \<lparr>it_position := JObj [(''x'', JNum (Finite 0)), (''y'', JNum (Finite 0))]\<rparr>)
                  (tables S))"
proof -
  have t1: "mapE importTable (map (exportTable True) (tables S)) = Inr (map asImportedTable (tables S))"
  proof (rule mapE_map, rule ballI)
    fix t assume "t \<in> set (tables S)"
    with assms(8) obtain x y where "color t = None" "position t = (Finite x, Finite y)" by blast
    then show "importTable (exportTable True t) = Inr (asImportedTable t)"
      by (rule importTable_exportTable_positions)
  qed
  have t2: "mapE importTable (map (exportTable False) (tables S)) =
      Inr (map (\<lambda>t. (asImportedTable t)
                     \<lparr>it_position := JObj [(''x'', JNum (Finite 0)), (''y'', JNum (Finite 0))]\<rparr>)
               (tables S))"
  proof (rule mapE_map, rule ballI)
    fix t assume "t \<in> set (tables S)"
    with assms(8) have "color t = None" by blast
    then show "importTable (exportTable False t) = Inr ((asImportedTable t)
                     \<lparr>it_position := JObj [(''x'', JNum (Finite 0)), (''y'', JNum (Finite 0))]\<rparr>)"
      by (rule importTable_exportTable_no_positions)
  qed
  show ?thesis
    using importData_exportToJSON [OF t1 assms(1-7), of now1 now2 now]
      importData_exportToJSON [OF t2 assms(1-7), of now1 now2 now] assms(2,3)
    by (simp add: importFromJSON_def)
qed

theorem json_round_trip_witness:
  "sch_name ex_json_schema \<noteq> [] \<and>
   createdAt ex_json_schema = Date 1700000000000 \<and>
   Date_toISOString 1700000000000 = ''2023-11-14T22:13:20.000Z'' \<and>
   Date_ofISO (JStr (Date_toISOString 1700000000000)) = Date 1700000000000 \<and>
   updatedAt ex_json_schema = Date 1700000360500 \<and>
   Date_toISOString 1700000360500 = ''2023-11-14T22:19:20.500Z'' \<and>
   Date_ofISO (JStr (Date_toISOString 1700000360500)) = Date 1700000360500 \<and>
   list_all (\<lambda>t. color t = None \<and> (case position t of (Finite x, Finite y) \<Rightarrow> True | _ \<Rightarrow> False))
     (tables ex_json_schema) \<and>
   map_sum id is_tables (importFromJSON Date_ofISO (Date 0) (Date 0)
       (Inr (exportToJSON Date_toISOString 1700000400000 ex_json_schema True))) =
     Inr (map asImportedTable (tables ex_json_schema)) \<and>
   map_sum id (map it_position \<circ> is_tables) (importFromJSON Date_ofISO (Date 0) (Date 0)
       (Inr (exportToJSON Date_toISOString 1700000400000 ex_json_schema False))) =
     Inr [JObj [(''x'', JNum (Finite 0)), (''y'', JNum (Finite 0))],
          JObj [(''x'', JNum (Finite 0)), (''y'', JNum (Finite 0))]]"
proof -
  have n: "sch_name ex_json_schema \<noteq> []" by (simp add: ex_json_schema_def)
  have c: "createdAt ex_json_schema = Date 1700000000000" by (simp add: ex_json_schema_def)
  have u: "updatedAt ex_json_schema = Date 1700000360500" by (simp add: ex_json_schema_def)
  have c1: "Date_toISOString 1700000000000 = ''2023-11-14T22:13:20.000Z''" by code_simp
  have c2: "Date_ofISO (JStr (Date_toISOString 1700000000000)) = Date 1700000000000" by code_simp
  have u1: "Date_toISOString 1700000360500 = ''2023-11-14T22:19:20.500Z''" by code_simp
  have u2: "Date_ofISO (JStr (Date_toISOString 1700000360500)) = Date 1700000360500" by code_simp
  have c3: "Date_toISOString 1700000000000 \<noteq> []" by (simp add: c1)
  have u3: "Date_toISOString 1700000360500 \<noteq> []" by (simp add: u1)
  have p: "list_all (\<lambda>t. color t = None \<and> (case position t of (Finite x, Finite y) \<Rightarrow> True | _ \<Rightarrow> False))
     (tables ex_json_schema)"
    by (simp add: ex_json_schema_def)
  have t: "\<forall>t \<in> set (tables ex_json_schema). color t = None \<and> (\<exists>x y. position t = (Finite x, Finite y))"
    by (simp add: ex_json_schema_def)
  have z: "map (it_position \<circ> (\<lambda>t. (asImportedTable t)
                     \<lparr>it_position := JObj [(''x'', JNum (Finite 0)), (''y'', JNum (Finite 0))]\<rparr>))
       (tables ex_json_schema) =
     [JObj [(''x'', JNum (Finite 0)), (''y'', JNum (Finite 0))],
      JObj [(''x'', JNum (Finite 0)), (''y'', JNum (Finite 0))]]"
    by (simp add: ex_json_schema_def)
  from json_round_trip [OF n c u c3 c2 u3 u2 t, of "Date 0" "Date 0" 1700000400000] z
  have r: "map_sum id is_tables (importFromJSON Date_ofISO (Date 0) (Date 0)
       (Inr (exportToJSON Date_toISOString 1700000400000 ex_json_schema True))) =
     Inr (map asImportedTable (tables ex_json_schema)) \<and>
   map_sum id (map it_position \<circ> is_tables) (importFromJSON Date_ofISO (Date 0) (Date 0)
       (Inr (exportToJSON Date_toISOString 1700000400000 ex_json_schema False))) =
     Inr [JObj [(''x'', JNum (Finite 0)), (''y'', JNum (Finite 0))],
          JObj [(''x'', JNum (Finite 0)), (''y'', JNum (Finite 0))]]"
    by auto
  from n c c1 c2 u u1 u2 p r show ?thesis by (intro conjI) (elim conjE, assumption)+
qed

text \<open>
  Claim C1, as stated, fails: the round trip of \<open>ex_json_schema\<close>, whose \<open>version\<close> is
  the number 1, yields a schema whose \<open>version\<close> is the string \<open>1.0.0\<close> (the version of
  the envelope), a field that is neither \<open>exportedAt\<close> nor an identifier. The \<open>id\<close> of the
  result is the schema's name, not its \<open>id\<close>.
\<close>

theorem json_round_trip_changes_version:
  "map_sum id is_version (importFromJSON Date_ofISO (Date 0) (Date 0)
       (Inr (exportToJSON Date_toISOString 1700000400000 ex_json_schema True))) =
     Inr (JStr ''1.0.0'') \<and>
   version ex_json_schema = Finite 1 \<and>
   map_sum id is_id (importFromJSON Date_ofISO (Date 0) (Date 0)
       (Inr (exportToJSON Date_toISOString 1700000400000 ex_json_schema True))) =
     Inr (JStr ''blog'') \<and>
   sch_id ex_json_schema = ''schema_1''"
  by code_simp

lemma import_defaults:
  "importFromJSON Date_new now1 now2 (Inr (JObj [(''tables'', JArr [])])) =
     Inr \<lparr>is_id = JStr ''Imported Schema'', is_name = JStr ''Imported Schema'',
          is_description = None, is_tables = [], is_relationships = [],
          is_createdAt = now1, is_updatedAt = now2, is_version = JNum (Finite 1)\<rparr>"
  by (simp add: importFromJSON_def importData_def readProp_def optChain_def Let_def)

text \<open>
  For every input that parses as JSON, is not \<open>null\<close> and has no \<open>tables\<close> array (the
  parsed value is not an object, or its \<open>tables\<close> property is missing or not an array),
  \<open>importFromJSON\<close> throws an \<open>Error\<close> with the message
  \<open>Failed to import JSON: Invalid JSON format: missing tables array\<close> and returns no
  schema; for \<open>null\<close> it throws as well, with a message that begins the same way. A
  document with a \<open>tables\<close> array and neither \<open>relationships\<close> nor \<open>metadata\<close> is
  imported with defaults (\<open>import_defaults\<close>).
\<close>

lemma import_rejects_missing_tables:
  assumes "\<forall>ts. readProp data ''tables'' \<noteq> Some (JArr ts)"
  shows "\<exists>m. importFromJSON Date_new now1 now2 (Inr data) = Inl (''Failed to import JSON: '' @ m) \<and>
             (data \<noteq> JNull \<longrightarrow> m = ''Invalid JSON format: missing tables array'')"
proof (cases "data = JNull")
  case True
  then show ?thesis
    by (simp add: importFromJSON_def importData_def)
next
  case False
  have "importData Date_new now1 now2 data = Inl (Error ''Invalid JSON format: missing tables array'')"
  proof (cases "readProp data ''tables''")
    case None
    with False show ?thesis by (simp add: importData_def)
  next
    case (Some v)
    with assms have "\<forall>ts. v \<noteq> JArr ts" by simp
    with False Some show ?thesis
      by (cases v) (simp_all add: importData_def)
  qed
  then show ?thesis
    by (simp add: importFromJSON_def)
qed

lemma import_rejects_missing_tables_examples:
  "readProp (JObj [(''relationships'', JArr [])]) ''tables'' = None \<and>
   importFromJSON Date_ofISO (Date 0) (Date 0) (Inr (JObj [(''relationships'', JArr [])])) =
     Inl ''Failed to import JSON: Invalid JSON format: missing tables array'' \<and>
   readProp (JObj [(''tables'', JObj [])]) ''tables'' = Some (JObj []) \<and>
   importFromJSON Date_ofISO (Date 0) (Date 0) (Inr (JObj [(''tables'', JObj [])])) =
     Inl ''Failed to import JSON: Invalid JSON format: missing tables array''"
  using import_rejects_missing_tables
      [of "JObj [(''relationships'', JArr [])]" Date_ofISO "Date 0" "Date 0"]
    import_rejects_missing_tables
      [of "JObj [(''tables'', JObj [])]" Date_ofISO "Date 0" "Date 0"]
  by (simp add: readProp_def)

text \<open>
  Claim C10 fails for the well-formed JSON text \<open>null\<close>: the parsed value has no
  \<open>tables\<close> array, the read \<open>data.tables\<close> throws a \<open>TypeError\<close> before the check of
  the format is reached, and the import is rejected with the message of that error,
  which does not contain \<open>Invalid JSON format: missing tables array\<close>. For every other
  document without a \<open>tables\<close> array the claim holds
  (\<open>import_rejects_missing_tables\<close>).
\<close>

theorem import_null_document:
  "readProp JNull ''tables'' = None \<and>
   importFromJSON Date_ofISO (Date 0) (Date 0) (Inr JNull) =
     Inl (''Failed to import JSON: Cannot read properties of null (reading '' @ [CHR 0x27] @
          ''tables'' @ [CHR 0x27] @ '')'') \<and>
   \<not> String_includes
       (''Failed to import JSON: Cannot read properties of null (reading '' @ [CHR 0x27] @
        ''tables'' @ [CHR 0x27] @ '')'')
       ''Invalid JSON format: missing tables array''"
  by (simp add: importFromJSON_def importData_def readProp_def cannotRead_def)


section \<open>Properties of the Django importer\<close>

lemma parseFieldArguments_primaryKey:
  "df_primaryKey (parseFieldArguments args field ty) =
     (df_primaryKey field \<or>
      String_includes (trim (collapseSpaces False args)) ''primary_key=True'' \<or>
      String_includes (trim (collapseSpaces False args)) ''AutoField'' \<or>
      String_includes (trim (collapseSpaces False args)) ''BigAutoField'')"
proof -
  define cleanArgs where "cleanArgs = trim (collapseSpaces False args)"
  define explicitNull where "explicitNull =
    (String_includes cleanArgs ''null=True'' \<or> String_includes cleanArgs ''blank=True'')"
  define f1 where "f1 =
    (if String_includes cleanArgs ''null=True'' then field\<lparr>df_nullable := True\<rparr>
     else if String_includes cleanArgs ''null=False'' then field\<lparr>df_nullable := False\<rparr>
     else field)"
  define f2 where "f2 =
    (if String_includes cleanArgs ''blank=True'' then f1\<lparr>df_nullable := True\<rparr> else f1)"
  define f3 where "f3 =
    (if String_includes cleanArgs ''unique=True'' then f2\<lparr>df_unique := True\<rparr> else f2)"
  define f4 where "f4 =
    (case defaultMatch cleanArgs of
       None \<Rightarrow> f3
     | Some g \<Rightarrow> f3\<lparr>df_defaultValue := Some (stripQuotes (trim g))\<rparr>)"
  define f5 where "f5 =
    (if ty = ''ForeignKey'' then
       (case modelMatch cleanArgs of
          None \<Rightarrow> f4
        | Some relatedModel \<Rightarrow>
            f4\<lparr>df_foreignKey := Some (relationOf cleanArgs relatedModel),
               df_nullable := (if \<not> explicitNull then False else df_nullable f4)\<rparr>)
     else if ty = ''OneToOneField'' then
       (case modelMatch cleanArgs of
          None \<Rightarrow> f4
        | Some relatedModel \<Rightarrow>
            f4\<lparr>df_oneToOneField := Some (relationOf cleanArgs relatedModel),
               df_nullable := (if \<not> explicitNull then False else df_nullable f4)\<rparr>)
     else if ty = ''ManyToManyField'' then
       (case modelMatch cleanArgs of
          None \<Rightarrow> f4
        | Some relatedModel \<Rightarrow>
            f4\<lparr>df_manyToManyField :=
                 Some \<lparr>mm_model = relatedModel, mm_through = throughMatch cleanArgs\<rparr>,
               df_type := JSString ''json''\<rparr>)
     else f4)"
  define f6 where "f6 =
    (if maxLengthMatch cleanArgs then f5\<lparr>df_type := JSString ''string''\<rparr> else f5)"
  define f7 where "f7 =
    (if String_includes cleanArgs ''primary_key=True''
     then f6\<lparr>df_primaryKey := True, df_nullable := False\<rparr> else f6)"
  have e: "parseFieldArguments args field ty =
    (if String_includes cleanArgs ''AutoField'' \<or> String_includes cleanArgs ''BigAutoField''
     then f7\<lparr>df_primaryKey := True, df_nullable := False, df_type := JSString ''integer''\<rparr>
     else f7)"
    unfolding parseFieldArguments_def Let_def f7_def f6_def f5_def f4_def f3_def f2_def f1_def
      explicitNull_def cleanArgs_def
    by (rule refl)
  have p1: "df_primaryKey f1 = df_primaryKey field" by (simp add: f1_def)
  have p2: "df_primaryKey f2 = df_primaryKey f1" by (simp add: f2_def)
  have p3: "df_primaryKey f3 = df_primaryKey f2" by (simp add: f3_def)
  have p4: "df_primaryKey f4 = df_primaryKey f3" by (simp add: f4_def split: option.splits)
  have p5: "df_primaryKey f5 = df_primaryKey f4" by (simp add: f5_def split: option.splits)
  have p6: "df_primaryKey f6 = df_primaryKey f5" by (simp add: f6_def)
  have p7: "df_primaryKey f7 =
    (df_primaryKey f6 \<or> String_includes cleanArgs ''primary_key=True'')"
    by (simp add: f7_def)
  show ?thesis
    unfolding e by (simp add: p1 p2 p3 p4 p5 p6 p7 cleanArgs_def [symmetric])
qed

text \<open>
  When the parser marks a field as primary key: its type is \<open>AutoField\<close> or
  \<open>BigAutoField\<close>, or its argument text contains \<open>primary_key=True\<close>, or its argument
  text contains \<open>AutoField\<close> (anywhere, also inside a string).
\<close>

lemma makeField_primaryKey:
  "df_primaryKey (makeField n ty args) =
     (ty = ''AutoField'' \<or> ty = ''BigAutoField'' \<or>
      String_includes (trim (collapseSpaces False args)) ''primary_key=True'' \<or>
      String_includes (trim (collapseSpaces False args)) ''AutoField'' \<or>
      String_includes (trim (collapseSpaces False args)) ''BigAutoField'')"
  unfolding makeField_def Let_def
  by (simp add: if_distrib [of df_primaryKey] parseFieldArguments_primaryKey)

lemma parseModel_fields:
  "\<not> list_ex df_primaryKey (parseFields classContent) \<Longrightarrow>
   dm_fields (parseModel className classContent) = idField # parseFields classContent"
  by (simp add: parseModel_def Let_def)

lemma zip_upt_Cons:
  "zip [c..<c + length (x # xs)] (x # xs) = (c, x) # zip [Suc c..<Suc c + length xs] xs"
proof -
  have "[c..<c + length (x # xs)] = c # [Suc c..<Suc c + length xs]"
    by (subst upt_rec) simp
  then show ?thesis by simp
qed

lemma resolveColumn_no_foreignKey:
  "dc_foreignKey column = None \<Longrightarrow> resolveColumn models tabs table column = (column, None)"
  by (simp add: resolveColumn_def)

lemma firstPass_length: "length (firstPass importId i c ms) = length ms"
  by (induction ms arbitrary: i c) simp_all

lemma firstPass_nth:
  "k < length ms \<Longrightarrow> \<exists>cnt. firstPass importId i c ms ! k = toTable importId (i + k) cnt (ms ! k)"
proof (induction ms arbitrary: i c k)
  case Nil
  then show ?case by simp
next
  case (Cons m ms)
  show ?case
  proof (cases k)
    case 0
    then show ?thesis by auto
  next
    case (Suc j)
    with Cons.prems have "j < length ms" by simp
    from Cons.IH [OF this, of "Suc i" "c + length (dm_fields m)"] Suc
    show ?thesis by auto
  qed
qed

lemma toTable_id_first:
  assumes "dm_fields m = idField # fs"
  shows "\<exists>c cs. dt_columns (toTable importId k cnt m) = c # cs \<and>
           dc_name c = ''id'' \<and> dc_type c = JSString ''integer'' \<and> dc_primaryKey c \<and>
           \<not> dc_nullable c \<and> dc_unique c \<and> dc_foreignKey c = None"
proof -
  have "zip [cnt..<cnt + length (dm_fields m)] (dm_fields m) =
      (cnt, idField) # zip [Suc cnt..<Suc cnt + length fs] fs"
    unfolding assms by (rule zip_upt_Cons)
  then show ?thesis
    by (simp add: toTable_def toColumn_def idField_def)
qed

text \<open>
  The table of a model that received the synthesized \<open>id\<close> field (the \<open>k\<close>-th model
  gives the \<open>k\<close>-th table) has as its first column a column named \<open>id\<close> of type
  \<open>integer\<close> that is primary key, not nullable and unique.
\<close>

lemma id_column_first:
  assumes "k < length models" and "dm_fields (models ! k) = idField # fs"
  shows "\<exists>c cs.
           dt_columns (ds_tables (convertDjangoToSchema importId stamp created updated models) ! k) =
             c # cs \<and>
           dc_name c = ''id'' \<and> dc_type c = JSString ''integer'' \<and> dc_primaryKey c \<and>
           \<not> dc_nullable c \<and> dc_unique c"
proof -
  from firstPass_nth [OF assms(1), of importId 0 0]
  obtain cnt where t: "firstPass importId 0 0 models ! k = toTable importId k cnt (models ! k)"
    by auto
  have len: "k < length (firstPass importId 0 0 models)"
    using assms(1) by (simp add: firstPass_length)
  from toTable_id_first [OF assms(2), of importId k cnt]
  obtain c cs where c: "dt_columns (toTable importId k cnt (models ! k)) = c # cs"
    "dc_name c = ''id''" "dc_type c = JSString ''integer''" "dc_primaryKey c"
    "\<not> dc_nullable c" "dc_unique c" "dc_foreignKey c = None" by blast
  have "dt_columns (ds_tables (convertDjangoToSchema importId stamp created updated models) ! k) =
      c # map (\<lambda>column. fst (resolveColumn models (firstPass importId 0 0 models)
                (toTable importId k cnt (models ! k)) column)) cs"
    using t len c(1) c(7)
    by (simp add: convertDjangoToSchema_def secondPassTables_def Let_def resolveColumn_no_foreignKey)
  with c show ?thesis by blast
qed

text \<open>The lookup by table name finds a model for the name of every table.\<close>

lemma tableToModelLookup_total:
  assumes "m \<in> set models"
  shows "tableToModelLookup models (tableNameOf m) \<noteq> None"
  using assms by (auto simp: tableToModelLookup_def find_None_iff)


lemma models_user_post:
  "parseModels ex_user_post_source =
     [\<lparr>dm_name = ''User'', dm_tableName = None,
       dm_fields =
         [idField,
          \<lparr>df_name = ''name'', df_type = JSString ''string'', df_nullable = True,
           df_primaryKey = False, df_unique = False, df_defaultValue = None,
           df_foreignKey = None, df_oneToOneField = None, df_manyToManyField = None,
           df_description = None\<rparr>],
       dm_description = None\<rparr>,
      \<lparr>dm_name = ''Post'', dm_tableName = None,
       dm_fields =
         [idField,
          \<lparr>df_name = ''author'', df_type = JSString ''integer'', df_nullable = False,
           df_primaryKey = False, df_unique = False, df_defaultValue = None,
           df_foreignKey =
             Some \<lparr>rl_model = ''User'', rl_field = ''id'', rl_onDelete = Some ''CASCADE''\<rparr>,
           df_oneToOneField = None, df_manyToManyField = None, df_description = None\<rparr>],
       dm_description = None\<rparr>]"
  by code_simp

lemma snakeCase_examples: "snakeCase ''Post'' = ''post''" "snakeCase ''User'' = ''user''"
  by code_simp+

lemma showNat_examples:
  "showNat 0 = ''0''" "showNat (Suc 0) = ''1''" "showNat (Suc (Suc 0)) = ''2''"
  "showNat (Suc (Suc (Suc 0))) = ''3''"
  by code_simp+

lemma mapDjangoOnDelete_CASCADE: "mapDjangoOnDelete (Some ''CASCADE'') = JSString ''CASCADE''"
  by code_simp

lemma upt_examples: "[0..<2] = [0, 1]" "[2..<4] = [2, 3]"
  by code_simp+

lemmas convert_defs =
  parseDjangoModels_def convertDjangoToSchema_def toTable_def toColumn_def tableNameOf_def
  truthyStr_def placeholderKey_def secondPassTables_def secondPassRelationships_def
  thirdPassRelationships_def resolveColumn_def tableToModelLookup_def modelLookup_def
  targetTableNameOf_def targetColumnOf_def manyToManyRelationship_def idField_def js_or_def
  List.map_filter_def Let_def snakeCase_examples showNat_examples mapDjangoOnDelete_CASCADE
  upt_examples

text \<open>The same result when \<open>User\<close> is declared before \<open>Post\<close>.\<close>

lemma resolution_with_user_declared_first:
  "map (\<lambda>r. (dr_type r, dr_sourceTableId r, dr_sourceColumnId r, dr_targetTableId r,
              dr_targetColumnId r))
     (ds_relationships (parseDjangoModels importId stamp created updated ex_user_post_source)) =
     [(''many-to-one'', ''post'', ''post_author_'' @ importId @ ''_3'',
       ''user'', ''user_id_'' @ importId @ ''_0'')] \<and>
   map (\<lambda>t. (dt_id t,
          map (\<lambda>c. (dc_id c, dc_name c, dc_primaryKey c,
                     map_option (\<lambda>k. (dfk_tableId k, dfk_columnId k)) (dc_foreignKey c)))
              (dt_columns t)))
     (ds_tables (parseDjangoModels importId stamp created updated ex_user_post_source)) =
     [(''user'', [(''user_id_'' @ importId @ ''_0'', ''id'', True, None),
                  (''user_name_'' @ importId @ ''_1'', ''name'', False, None)]),
      (''post'', [(''post_id_'' @ importId @ ''_2'', ''id'', True, None),
                  (''post_author_'' @ importId @ ''_3'', ''author'', False,
                   Some (''user'', ''user_id_'' @ importId @ ''_0''))])]"
  by (simp add: convert_defs models_user_post)

text \<open>
  With a declared primary key in \<open>User\<close> and the model referenced by a bare
  identifier, the relationship targets the declared key \<open>uid\<close>.
\<close>

lemma resolution_targets_declared_primary_key:
  "map (\<lambda>r. (dr_type r, dr_sourceTableId r, dr_sourceColumnId r, dr_targetTableId r,
              dr_targetColumnId r, dr_onDelete r))
     (ds_relationships (parseDjangoModels ''1700000000000'' ''1700000000001'' (Date 0) (Date 0)
        ex_uuid_user_source)) =
     [(''many-to-one'', ''post'', ''post_author_1700000000000_3'', ''user'',
       ''user_uid_1700000000000_0'', JSString ''SET NULL'')] \<and>
   map (\<lambda>t. (dt_id t,
          map (\<lambda>c. (dc_id c, dc_name c, dc_primaryKey c, dc_nullable c,
                     map_option (\<lambda>k. (dfk_tableId k, dfk_columnId k)) (dc_foreignKey c)))
              (dt_columns t)))
     (ds_tables (parseDjangoModels ''1700000000000'' ''1700000000001'' (Date 0) (Date 0)
        ex_uuid_user_source)) =
     [(''user'', [(''user_uid_1700000000000_0'', ''uid'', True, False, None),
                  (''user_name_1700000000000_1'', ''name'', False, True, None)]),
      (''post'', [(''post_id_1700000000000_2'', ''id'', True, False, None),
                  (''post_author_1700000000000_3'', ''author'', False, True,
                   Some (''user'', ''user_uid_1700000000000_0''))])]"
  by code_simp


text \<open>
  Claim C3 fails on the source \<open>ex_tag_source\<close>: the model \<open>Tag\<close> declares no field with
  \<open>primary_key=True\<close> and no \<open>AutoField\<close> or \<open>BigAutoField\<close>, but the help text of its
  \<open>CharField\<close> contains the word \<open>AutoField\<close>, so the parser marks that field as an
  integer primary key (\<open>makeField_primaryKey\<close>) and no \<open>id\<close> column is prepended: the
  first and only column of the table is \<open>label\<close>. When no parsed field is marked as
  primary key, the first column is the synthesized \<open>id\<close> (\<open>parseModel_fields\<close>,
  \<open>id_column_first\<close>).
\<close>

theorem help_text_suppresses_id_column:
  "map (\<lambda>t. (dt_name t, map (\<lambda>c. (dc_name c, dc_type c, dc_primaryKey c)) (dt_columns t)))
     (ds_tables (parseDjangoModels ''1700000000000'' ''1700000000001'' (Date 0) (Date 0)
        ex_tag_source)) =
   [(''tag'', [(''label'', JSString ''integer'', True)])]"
  by code_simp

end
